theory Spec2Isabelle
  imports Main "HOL-Library.Sublist"
begin

section \<open>pgctl: the operation layer of \<^verbatim>\<open>src/db-operations.js\<close>\<close>

text \<open>
  The module turns one administrative request into calls of external tools (\<^verbatim>\<open>psql\<close>,
  \<^verbatim>\<open>pg_dump\<close>, \<^verbatim>\<open>pg_restore\<close>, \<^verbatim>\<open>dbmate\<close>) and prints what happened. Its
  functions are embedded as state transformers over the list of observable events they
  cause, in the order they happen: lines printed with \<^verbatim>\<open>console.log\<close>, commands handed
  to \<^verbatim>\<open>exec\<close>, processes started with \<^verbatim>\<open>spawn\<close>, directories made with
  \<^verbatim>\<open>fs.mkdirSync\<close>. What the outside world answers (whether a command exits with status
  zero, what it writes to its error stream, whether a file exists) is a parameter: a record
  of functions from the events so far to the answer. A theorem that holds for every such
  record holds whatever the tools and the file system do.

  The model describes runs in which every awaited external process ends; a tool that never
  exits (the code sets no timeout) is outside it.
\<close>

subsection \<open>JavaScript values and strings\<close>

text \<open>
  A value that may be \<^verbatim>\<open>undefined\<close> (an environment variable, a property of an error
  object, an omitted argument) is a \<open>string option\<close>. A string is a list of characters: a
  code unit below 256 is the character with that code, and the pictographs of the messages
  are written as \<^verbatim>\<open><U+....>\<close>. How other code units are written is left open, and
  the library functions whose answer may depend on them (\<^verbatim>\<open>toLowerCase\<close>,
  \<^verbatim>\<open>path.dirname\<close>, \<^verbatim>\<open>path.extname\<close>) are parameters of the outside world, so that
  a statement about every path holds whatever these functions answer.
\<close>

definition truthy :: "string option \<Rightarrow> bool" where
  "truthy v = (case v of None \<Rightarrow> False | Some s \<Rightarrow> s \<noteq> [])"

text \<open>\<^verbatim>\<open>a || b\<close> for a string-or-undefined \<^verbatim>\<open>a\<close> and a string \<^verbatim>\<open>b\<close>.\<close>

definition or_else :: "string option \<Rightarrow> string \<Rightarrow> string" where
  "or_else a b = (case a of None \<Rightarrow> b | Some s \<Rightarrow> if s = [] then b else s)"

text \<open>\<^verbatim>\<open>${v}\<close> inside a template literal.\<close>

definition interp :: "string option \<Rightarrow> string" where
  "interp v = (case v of None \<Rightarrow> ''undefined'' | Some s \<Rightarrow> s)"

text \<open>\<^verbatim>\<open>s.includes(x)\<close>: \<open>x\<close> occurs in \<open>s\<close> as a contiguous block.\<close>

definition js_includes :: "string \<Rightarrow> string \<Rightarrow> bool" where
  "js_includes s x = sublist x s"

definition quoted :: "string \<Rightarrow> string" where
  \<open>quoted s = ''"'' @ s @ ''"''\<close>

definition newline :: string where
  "newline = [CHR 0x0A]"

definition check_mark :: string where "check_mark = ''<U+2713>''"
definition ballot_x :: string where "ballot_x = ''<U+2717>''"
definition warning_sign :: string where "warning_sign = ''<U+26A0>''"

subsection \<open>Events and the outside world\<close>

datatype colour = Plain | Blue | Green | Yellow | Red | Cyan

type_synonym env_overlay = "(string \<times> string option) list"

datatype event =
    Log colour string
  | Exec string env_overlay bool
  | Spawn string "string list" env_overlay bool
  | Mkdir string bool

text \<open>
  \<open>Log c s\<close> is \<^verbatim>\<open>console.log(chalk.c(s))\<close>. \<open>Exec command env shell\<close> is
  \<^verbatim>\<open>execAsync(command, { env })\<close>, with \<open>shell\<close> set when the call also passes
  \<^verbatim>\<open>shell: true\<close>; \<open>env\<close> lists the variables the call adds to \<^verbatim>\<open>process.env\<close>.
  \<open>Spawn file args env shell\<close> is \<^verbatim>\<open>spawn(file, args, { env, stdio: 'inherit', shell })\<close>.
  \<open>Mkdir dir recursive\<close> is \<^verbatim>\<open>fs.mkdirSync(dir, { recursive })\<close>: with \<open>recursive\<close>
  set the call creates the missing ancestors of \<open>dir\<close> too.
\<close>

text \<open>
  A JavaScript error object: its message and, when \<^verbatim>\<open>exec\<close> made it, the output
  captured from the child.
\<close>

record error =
  message :: string
  err_stdout :: "string option"
  err_stderr :: "string option"

definition Error :: "string \<Rightarrow> error" where
  "Error msg = \<lparr>message = msg, err_stdout = None, err_stderr = None\<rparr>"

text \<open>What a child started by \<^verbatim>\<open>spawn\<close> emits: \<^verbatim>\<open>'error'\<close> or \<^verbatim>\<open>'close'\<close> with its
  exit code, which is \<^verbatim>\<open>null\<close> when a signal ended it.\<close>

datatype proc_event = ErrorEvent error | CloseEvent "int option"

record os =
  process_env :: "string \<Rightarrow> string option"
  platform_win32 :: bool
  path_dirname :: "string \<Rightarrow> string"
  path_extname :: "string \<Rightarrow> string"
  js_toLowerCase :: "string \<Rightarrow> string"
  exec_reply :: "event list \<Rightarrow> error + string \<times> string"
  spawn_reply :: "event list \<Rightarrow> proc_event \<times> proc_event list"
  fs_existsSync :: "event list \<Rightarrow> string \<Rightarrow> bool"
  mkdir_reply :: "event list \<Rightarrow> error option"

text \<open>
  \<open>exec_reply\<close> answers the promisified \<^verbatim>\<open>exec\<close>: \<open>Inr (stdout, stderr)\<close> when the command
  exits with status zero, \<open>Inl e\<close> when the promise rejects (a non-zero exit, a signal, a
  command that cannot be started). \<open>spawn_reply\<close> gives the events of the child, at least
  one. \<open>mkdir_reply\<close> is the error \<^verbatim>\<open>fs.mkdirSync\<close> throws, if any. \<open>path_dirname\<close> and
  \<open>path_extname\<close> are the two functions of the platform's \<^verbatim>\<open>path\<close> module, and
  \<open>js_toLowerCase\<close> is \<^verbatim>\<open>String.prototype.toLowerCase\<close>.
\<close>

subsection \<open>Computations: events so far in, result or thrown error and events out\<close>

type_synonym 'a js = "event list \<Rightarrow> (error + 'a) \<times> event list"

definition ret :: "'a \<Rightarrow> 'a js" where
  "ret x t = (Inr x, t)"

definition throw :: "error \<Rightarrow> 'a js" where
  "throw e t = (Inl e, t)"

definition bind :: "'a js \<Rightarrow> ('a \<Rightarrow> 'b js) \<Rightarrow> 'b js" where
  "bind m k t = (case m t of (Inl e, t') \<Rightarrow> (Inl e, t') | (Inr x, t') \<Rightarrow> k x t')"

definition seq :: "unit js \<Rightarrow> 'b js \<Rightarrow> 'b js" where
  "seq m k = bind m (\<lambda>_. k)"

definition try_catch :: "'a js \<Rightarrow> (error \<Rightarrow> 'a js) \<Rightarrow> 'a js" where
  "try_catch m h t = (case m t of (Inl e, t') \<Rightarrow> h e t' | (Inr x, t') \<Rightarrow> (Inr x, t'))"

definition console_log :: "colour \<Rightarrow> string \<Rightarrow> unit js" where
  "console_log c s t = (Inr (), t @ [Log c s])"

definition execAsync :: "os \<Rightarrow> string \<Rightarrow> env_overlay \<Rightarrow> bool \<Rightarrow> (string \<times> string) js" where
  "execAsync w command env shell t =
     (let t' = t @ [Exec command env shell] in (exec_reply w t', t'))"

definition existsSync :: "os \<Rightarrow> string \<Rightarrow> bool js" where
  "existsSync w p t = (Inr (fs_existsSync w t p), t)"

definition mkdirSync :: "os \<Rightarrow> string \<Rightarrow> bool \<Rightarrow> unit js" where
  "mkdirSync w dir recursive t =
     (let t' = t @ [Mkdir dir recursive] in
      case mkdir_reply w t' of None \<Rightarrow> (Inr (), t') | Some e \<Rightarrow> (Inl e, t'))"

text \<open>The variables every call of a PostgreSQL tool adds to the environment.\<close>

definition pg_env :: "os \<Rightarrow> env_overlay" where
  "pg_env w =
     [(''PGHOST'', process_env w ''PG_HOST''),
      (''PGPORT'', process_env w ''PG_PORT''),
      (''PGUSER'', process_env w ''PG_USER''),
      (''PGPASSWORD'', process_env w ''PG_PASSWORD'')]"

definition PGHOST :: "os \<Rightarrow> string" where "PGHOST w = interp (process_env w ''PG_HOST'')"
definition PGPORT :: "os \<Rightarrow> string" where "PGPORT w = interp (process_env w ''PG_PORT'')"
definition PGUSER :: "os \<Rightarrow> string" where "PGUSER w = interp (process_env w ''PG_USER'')"

subsection \<open>\<^verbatim>\<open>getDatabaseUrl\<close>\<close>

definition getDatabaseUrl :: "os \<Rightarrow> string option \<Rightarrow> error + string" where
  "getDatabaseUrl w dbName =
     (if \<not> truthy dbName \<and> truthy (process_env w ''DATABASE_URL'')
      then Inr (the (process_env w ''DATABASE_URL''))
      else if \<not> truthy dbName then Inl (Error ''Database name is required'')
      else Inr (''postgres://'' @ interp (process_env w ''PG_USER'') @ '':''
                @ interp (process_env w ''PG_PASSWORD'') @ ''@''
                @ interp (process_env w ''PG_HOST'') @ '':''
                @ interp (process_env w ''PG_PORT'') @ ''/'' @ interp dbName
                @ ''?sslmode=disable''))"

subsection \<open>\<^verbatim>\<open>executePsqlCommand\<close>\<close>

record psql_options =
  database :: "string option"

definition no_options :: psql_options where
  "no_options = \<lparr>database = None\<rparr>"

record psql_result =
  stdout :: string
  stderr :: string
  success :: bool

definition psql_command :: "os \<Rightarrow> string \<Rightarrow> psql_options \<Rightarrow> string" where
  "psql_command w sql options =
     (let dbFlag = (if truthy (database options) then ''-d '' @ interp (database options) else '''')
      in ''psql -P pager=off -h '' @ PGHOST w @ '' -p '' @ PGPORT w @ '' -U '' @ PGUSER w
         @ '' '' @ dbFlag @ '' -c '' @ quoted sql)"

definition executePsqlCommand :: "os \<Rightarrow> string \<Rightarrow> psql_options \<Rightarrow> psql_result js" where
  "executePsqlCommand w sql options =
     try_catch
       (bind (execAsync w (psql_command w sql options) (pg_env w) False)
          (\<lambda>(out, err). ret \<lparr>stdout = out, stderr = err, success = True\<rparr>))
       (\<lambda>error. ret \<lparr>stdout = or_else (err_stdout error) '''',
                     stderr = or_else (err_stderr error) (message error),
                     success = False\<rparr>)"

subsection \<open>\<^verbatim>\<open>createDatabase\<close> and \<^verbatim>\<open>dropDatabase\<close>\<close>

definition createDatabase :: "os \<Rightarrow> string \<Rightarrow> unit js" where
  "createDatabase w dbName =
     seq (console_log Blue (''<U+2795> Creating database '' @ quoted dbName @ ''...'' @ newline))
     (bind (executePsqlCommand w (''CREATE DATABASE '' @ dbName @ '';'') no_options) (\<lambda>result.
        if success result
        then console_log Green (check_mark @ '' Database '' @ quoted dbName @ '' created successfully!'')
        else if js_includes (stderr result) ''already exists''
        then console_log Yellow (warning_sign @ '' Database '' @ quoted dbName @ '' already exists.'')
        else seq (console_log Red (ballot_x @ '' Error creating database '' @ quoted dbName @ '':''))
                 (console_log Red (stderr result))))"

definition terminateSql :: "string \<Rightarrow> string" where
  "terminateSql dbName =
     newline @ ''    SELECT pg_terminate_backend(pg_stat_activity.pid)''
     @ newline @ ''    FROM pg_stat_activity''
     @ newline @ ''    WHERE pg_stat_activity.datname = '' @ [CHR 0x27] @ dbName @ [CHR 0x27]
     @ newline @ ''    AND pid <> pg_backend_pid();''
     @ newline @ ''  ''"

definition dropDatabase :: "os \<Rightarrow> string \<Rightarrow> unit js" where
  "dropDatabase w dbName =
     seq (console_log Blue (''<U+1F5D1><U+FE0F>  Dropping database '' @ quoted dbName @ ''...'' @ newline))
     (bind (executePsqlCommand w (terminateSql dbName) no_options) (\<lambda>_.
      bind (executePsqlCommand w (''DROP DATABASE IF EXISTS '' @ dbName @ '';'') no_options) (\<lambda>result.
        if success result
        then console_log Green (check_mark @ '' Database '' @ quoted dbName @ '' dropped successfully!'')
        else seq (console_log Red (ballot_x @ '' Error dropping database '' @ quoted dbName @ '':''))
                 (console_log Red (stderr result)))))"

subsection \<open>\<^verbatim>\<open>runDbmateUp\<close>\<close>

text \<open>A number inside a template literal: decimal digits, with a sign when negative.\<close>

fun show_nat :: "nat \<Rightarrow> string" where
  "show_nat n =
     (if n < 10 then [char_of (48 + n)] else show_nat (n div 10) @ [char_of (48 + n mod 10)])"

declare show_nat.simps [simp del]

definition show_int :: "int \<Rightarrow> string" where
  "show_int i = (if i < 0 then ''-'' @ show_nat (nat (- i)) else show_nat (nat i))"

definition spawn :: "os \<Rightarrow> string \<Rightarrow> string list \<Rightarrow> env_overlay \<Rightarrow> (proc_event \<times> proc_event list) js" where
  "spawn w file args env t =
     (let t' = t @ [Spawn file args env (platform_win32 w)] in (Inr (spawn_reply w t'), t'))"

text \<open>
  The listeners of a child run once for each event it emits, in order. The promise the
  function returns is settled by the first of them; at least one event arrives.
\<close>

primrec listeners :: "(proc_event \<Rightarrow> unit js) \<Rightarrow> proc_event list \<Rightarrow> unit js" where
  "listeners h [] = ret ()"
| "listeners h (e # es) = seq (h e) (listeners h es)"

definition dbmate_up_listener :: "proc_event \<Rightarrow> unit js" where
  "dbmate_up_listener ev =
     (case ev of
        ErrorEvent error \<Rightarrow>
          seq (console_log Red (newline @ ballot_x @ '' Error running dbmate:''))
         (seq (console_log Red (message error))
         (seq (console_log Yellow (newline @ ''Make sure dbmate is installed and in your PATH.''))
              (console_log Cyan ''Install dbmate: https://github.com/amacneil/dbmate#installation'')))
      | CloseEvent code \<Rightarrow>
          if code = Some 0
          then console_log Green (newline @ check_mark @ '' Migrations applied successfully!'')
          else (case code of
                  Some c \<Rightarrow> console_log Red (newline @ ballot_x @ '' dbmate exited with code '' @ show_int c)
                | None \<Rightarrow> ret ()))"

definition default_migrationsPath :: "string option \<Rightarrow> string" where
  "default_migrationsPath migrationsPath =
     (case migrationsPath of None \<Rightarrow> ''./db/migrations'' | Some p \<Rightarrow> p)"

definition runDbmateUp :: "os \<Rightarrow> string \<Rightarrow> string option \<Rightarrow> unit js" where
  "runDbmateUp w dbName migrationsPath =
     seq (console_log Blue (''<U+2B06><U+FE0F>  Running dbmate up (applying migrations to ''
                            @ quoted dbName @ '')...'' @ newline))
     (case getDatabaseUrl w (Some dbName) of
        Inl e \<Rightarrow> throw e
      | Inr databaseUrl \<Rightarrow>
          bind (spawn w ''dbmate'' [''up'']
                  [(''DATABASE_URL'', Some databaseUrl),
                   (''DBMATE_MIGRATIONS_DIR'', Some (default_migrationsPath migrationsPath))])
            (\<lambda>(ev, evs). listeners dbmate_up_listener (ev # evs)))"

subsection \<open>\<^verbatim>\<open>cloneDatabase\<close> and \<^verbatim>\<open>resetDatabase\<close>\<close>

definition clone_command :: "os \<Rightarrow> string \<Rightarrow> string \<Rightarrow> string" where
  "clone_command w sourceDb targetDb =
     ''pg_dump -h '' @ PGHOST w @ '' -p '' @ PGPORT w @ '' -U '' @ PGUSER w @ '' '' @ sourceDb
     @ '' | psql -P pager=off -h '' @ PGHOST w @ '' -p '' @ PGPORT w @ '' -U '' @ PGUSER w
     @ '' '' @ targetDb"

definition cloneDatabase :: "os \<Rightarrow> string \<Rightarrow> string \<Rightarrow> unit js" where
  "cloneDatabase w sourceDb targetDb =
     seq (console_log Blue (''<U+1F4CB> Cloning database '' @ quoted sourceDb @ '' to ''
                            @ quoted targetDb @ ''...'' @ newline))
     (bind (executePsqlCommand w (''CREATE DATABASE '' @ targetDb @ '';'') no_options) (\<lambda>createResult.
        if \<not> success createResult \<and> \<not> js_includes (stderr createResult) ''already exists''
        then seq (console_log Red (ballot_x @ '' Error creating target database '' @ quoted targetDb @ '':''))
                 (console_log Red (stderr createResult))
        else try_catch
               (bind (execAsync w (clone_command w sourceDb targetDb) (pg_env w) True) (\<lambda>_.
                  console_log Green (check_mark @ '' Database '' @ quoted sourceDb @ '' cloned to ''
                                     @ quoted targetDb @ '' successfully!'')))
               (\<lambda>error. seq (console_log Red (ballot_x @ '' Error cloning database:''))
                             (console_log Red (message error)))))"

definition resetDatabase :: "os \<Rightarrow> string \<Rightarrow> string option \<Rightarrow> unit js" where
  "resetDatabase w dbName migrationsPath =
     seq (console_log Blue (''<U+1F504> Resetting database '' @ quoted dbName @ ''...'' @ newline))
    (seq (dropDatabase w dbName)
    (seq (console_log Plain '''')
    (seq (createDatabase w dbName)
    (seq (console_log Plain '''')
         (runDbmateUp w dbName (Some (default_migrationsPath migrationsPath)))))))"

subsection \<open>\<^verbatim>\<open>backupDatabase\<close> and \<^verbatim>\<open>restoreDatabase\<close>\<close>

definition pg_dump_prefix :: "os \<Rightarrow> string" where
  "pg_dump_prefix w = ''pg_dump -h '' @ PGHOST w @ '' -p '' @ PGPORT w @ '' -U '' @ PGUSER w"

text \<open>Lines 411 to 424: the message and the command chosen from the extension.\<close>

definition backup_select :: "os \<Rightarrow> string \<Rightarrow> string \<Rightarrow> string js" where
  "backup_select w dbName backupPath =
     (let fileExt = js_toLowerCase w (path_extname w backupPath)
      in if fileExt = ''.dump'' \<or> fileExt = ''.backup'' \<or> fileExt = ''.dmp''
         then seq (console_log Cyan (''Creating custom format backup (compressed)...'' @ newline))
                  (ret (pg_dump_prefix w @ '' -Fc -f '' @ quoted backupPath @ '' '' @ dbName))
         else seq (console_log Cyan (''Creating plain SQL format backup...'' @ newline))
                  (ret (pg_dump_prefix w @ '' '' @ dbName @ '' > '' @ quoted backupPath)))"

definition backupDatabase :: "os \<Rightarrow> string \<Rightarrow> string \<Rightarrow> unit js" where
  "backupDatabase w dbName backupPath =
     seq (console_log Blue (''<U+1F4BE> Backing up database '' @ quoted dbName @ '' to ''
                            @ quoted backupPath @ ''...'' @ newline))
    (let dir = path_dirname w backupPath
     in seq (bind (existsSync w dir) (\<lambda>present. if \<not> present then mkdirSync w dir True else ret ()))
       (bind (backup_select w dbName backupPath) (\<lambda>command.
          try_catch
            (bind (execAsync w command (pg_env w) True) (\<lambda>_.
               console_log Green (check_mark @ '' Database '' @ quoted dbName
                                  @ '' backed up successfully to '' @ quoted backupPath @ ''!'')))
            (\<lambda>error. seq (console_log Red (ballot_x @ '' Error backing up database:''))
                          (console_log Red (message error))))))"

text \<open>Lines 458 to 473: \<^verbatim>\<open>usePgRestore\<close> and the command chosen from the extension.\<close>

definition restore_select :: "os \<Rightarrow> string \<Rightarrow> string \<Rightarrow> (bool \<times> string) js" where
  "restore_select w dbName backupPath =
     (let fileExt = js_toLowerCase w (path_extname w backupPath)
      in if fileExt = ''.dump'' \<or> fileExt = ''.backup'' \<or> fileExt = ''.dmp''
         then seq (console_log Cyan (''Detected custom format backup, using pg_restore...'' @ newline))
                  (ret (True, ''pg_restore -h '' @ PGHOST w @ '' -p '' @ PGPORT w @ '' -U '' @ PGUSER w
                              @ '' -d '' @ dbName @ '' --clean --if-exists --no-owner --no-acl ''
                              @ quoted backupPath))
         else seq (console_log Cyan (''Detected plain SQL format, using psql...'' @ newline))
                  (ret (False, ''psql -P pager=off -h '' @ PGHOST w @ '' -p '' @ PGPORT w @ '' -U ''
                               @ PGUSER w @ '' -d '' @ dbName @ '' < '' @ quoted backupPath)))"

definition restoreDatabase :: "os \<Rightarrow> string \<Rightarrow> string \<Rightarrow> unit js" where
  "restoreDatabase w dbName backupPath =
     seq (console_log Blue (''<U+267B><U+FE0F>  Restoring database '' @ quoted dbName @ '' from ''
                            @ quoted backupPath @ ''...'' @ newline))
    (bind (existsSync w backupPath) (\<lambda>present.
       if \<not> present
       then console_log Red (ballot_x @ '' Backup file '' @ quoted backupPath @ '' not found!'')
       else bind (restore_select w dbName backupPath) (\<lambda>(usePgRestore, command).
          try_catch
            (bind (execAsync w command (pg_env w) True) (\<lambda>_.
               console_log Green (check_mark @ '' Database '' @ quoted dbName
                                  @ '' restored successfully from '' @ quoted backupPath @ ''!'')))
            (\<lambda>error. seq (console_log Red (ballot_x @ '' Error restoring database:''))
                     (seq (console_log Red (or_else (err_stderr error) (message error)))
                          (if usePgRestore \<and> js_includes (message error) ''pg_restore''
                           then console_log Yellow (newline @ ''Make sure pg_restore is installed and in your PATH.'')
                           else ret ()))))))"

subsection \<open>Library functions on a POSIX system\<close>

text \<open>
  \<^verbatim>\<open>toLowerCase\<close> on strings of code units below 256: the letters A to Z and the
  capitals of Latin-1. It instantiates \<open>js_toLowerCase\<close> in concrete runs.
\<close>

definition lower_char :: "char \<Rightarrow> char" where
  "lower_char c =
     (let n = (of_char c :: nat)
      in if (65 \<le> n \<and> n \<le> 90) \<or> (192 \<le> n \<and> n \<le> 222 \<and> n \<noteq> 215) then char_of (n + 32) else c)"

definition latin1_toLowerCase :: "string \<Rightarrow> string" where
  "latin1_toLowerCase s = map lower_char s"

text \<open>
  \<^verbatim>\<open>path.dirname\<close> and \<^verbatim>\<open>path.extname\<close> as Node.js computes them on a POSIX system:
  both scan the path from its last character to the left. They are not part of the
  repository; they instantiate \<open>path_dirname\<close> and \<open>path_extname\<close> in concrete runs.
\<close>

fun dirname_scan :: "string \<Rightarrow> nat \<Rightarrow> bool \<Rightarrow> nat option" where
  "dirname_scan path 0 matchedSlash = None"
| "dirname_scan path (Suc i) matchedSlash =
     (if path ! Suc i = CHR ''/''
      then (if \<not> matchedSlash then Some (Suc i) else dirname_scan path i matchedSlash)
      else dirname_scan path i False)"

definition posix_dirname :: "string \<Rightarrow> string" where
  "posix_dirname path =
     (if path = [] then ''.''
      else let hasRoot = (hd path = CHR ''/'')
           in case dirname_scan path (length path - 1) True of
                None \<Rightarrow> (if hasRoot then ''/'' else ''.'')
              | Some e \<Rightarrow> if hasRoot \<and> e = 1 then ''//'' else take e path)"

record ext_state =
  startDot :: "nat option"
  startPart :: nat
  endPos :: "nat option"
  matchedSlash :: bool
  preDotState :: int

fun extname_scan :: "string \<Rightarrow> nat \<Rightarrow> ext_state \<Rightarrow> ext_state" where
  "extname_scan path 0 s = s"
| "extname_scan path (Suc i) s =
     (if path ! i = CHR ''/''
      then (if \<not> matchedSlash s then s\<lparr>startPart := i + 1\<rparr> else extname_scan path i s)
      else let s1 = (if endPos s = None then s\<lparr>matchedSlash := False, endPos := Some (i + 1)\<rparr> else s);
               s2 = (if path ! i = CHR ''.''
                     then (if startDot s1 = None then s1\<lparr>startDot := Some i\<rparr>
                           else if preDotState s1 \<noteq> 1 then s1\<lparr>preDotState := 1\<rparr> else s1)
                     else if startDot s1 \<noteq> None then s1\<lparr>preDotState := - 1\<rparr> else s1)
           in extname_scan path i s2)"

definition posix_extname :: "string \<Rightarrow> string" where
  "posix_extname path =
     (let s = extname_scan path (length path)
                \<lparr>startDot = None, startPart = 0, endPos = None, matchedSlash = True, preDotState = 0\<rparr>
      in case (startDot s, endPos s) of
           (Some d, Some e) \<Rightarrow>
             if preDotState s = 0 \<or> (preDotState s = 1 \<and> d + 1 = e \<and> d = startPart s + 1)
             then '''' else take (e - d) (drop d path)
         | _ \<Rightarrow> '''')"

subsection \<open>The database menu: what reaches create, drop and clone\<close>

text \<open>
  \<^verbatim>\<open>trim\<close> removes white space and line terminators at both ends; below 256 these are
  the code units 9 to 13, 32 and 160.
\<close>

definition is_space :: "char \<Rightarrow> bool" where
  "is_space c = (let n = (of_char c :: nat) in (9 \<le> n \<and> n \<le> 13) \<or> n = 32 \<or> n = 160)"

definition trim :: "string \<Rightarrow> string" where
  "trim s = rev (dropWhile is_space (rev (dropWhile is_space s)))"

definition word_char :: "char \<Rightarrow> bool" where
  "word_char c =
     (let n = (of_char c :: nat)
      in (97 \<le> n \<and> n \<le> 122) \<or> (65 \<le> n \<and> n \<le> 90) \<or> (48 \<le> n \<and> n \<le> 57) \<or> n = 95)"

text \<open>\<^verbatim>\<open>/^[a-zA-Z0-9_]+$/.test(input)\<close>\<close>

definition safe_name :: "string \<Rightarrow> bool" where
  "safe_name input = (input \<noteq> [] \<and> list_all word_char input)"

text \<open>A \<^verbatim>\<open>validate\<close> function answers \<^verbatim>\<open>true\<close>, or the message shown before asking again.\<close>

datatype validation = Accepted | Rejected string

definition validate_create :: "string \<Rightarrow> validation" where
  "validate_create input =
     (if trim input = [] then Rejected ''Database name cannot be empty''
      else if \<not> safe_name input
      then Rejected ''Database name can only contain letters, numbers, and underscores''
      else Accepted)"

definition validate_drop :: "string \<Rightarrow> validation" where
  "validate_drop input =
     (if trim input = [] then Rejected ''Database name cannot be empty'' else Accepted)"

definition validate_clone_source :: "string \<Rightarrow> validation" where
  "validate_clone_source input =
     (if trim input \<noteq> [] then Accepted else Rejected ''Database name cannot be empty'')"

definition validate_clone_target :: "string \<Rightarrow> validation" where
  "validate_clone_target input =
     (if trim input = [] then Rejected ''Database name cannot be empty''
      else if \<not> safe_name input
      then Rejected ''Database name can only contain letters, numbers, and underscores''
      else Accepted)"

text \<open>
  The three cases of \<^verbatim>\<open>showDatabaseMenu\<close>, given the answers typed at the prompts. A
  prompt returns an answer only once its \<^verbatim>\<open>validate\<close> accepts it, so a case whose answer
  is rejected does not reach the operation: \<open>None\<close>.
\<close>

definition menu_create :: "os \<Rightarrow> string \<Rightarrow> unit js option" where
  "menu_create w dbName =
     (if validate_create dbName = Accepted then Some (createDatabase w (trim dbName)) else None)"

definition menu_drop :: "os \<Rightarrow> string \<Rightarrow> bool \<Rightarrow> unit js option" where
  "menu_drop w dbNameDrop confirmDrop =
     (if validate_drop dbNameDrop = Accepted
      then Some (if confirmDrop then dropDatabase w (trim dbNameDrop)
                 else console_log Yellow ''Operation cancelled.'')
      else None)"

definition menu_clone :: "os \<Rightarrow> string \<Rightarrow> string \<Rightarrow> unit js option" where
  "menu_clone w sourceDb targetDb =
     (if validate_clone_source sourceDb = Accepted \<and> validate_clone_target targetDb = Accepted
      then Some (cloneDatabase w (trim sourceDb) (trim targetDb))
      else None)"

subsection \<open>Vocabulary of the statements\<close>

text \<open>
  The specification names what an operation reports: success, the benign "already
  exists", or a failure carrying the error text. The classifier of create follows the
  specification's wording; \<open>create_lines\<close> and \<open>drop_lines\<close> are the lines the code prints
  for each outcome.
\<close>

datatype outcome = Success | AlreadyExists | Failure string

definition classify_create :: "psql_result \<Rightarrow> outcome" where
  "classify_create r =
     (if success r then Success
      else if js_includes (stderr r) ''already exists'' then AlreadyExists
      else Failure (stderr r))"

definition classify_drop :: "psql_result \<Rightarrow> outcome" where
  "classify_drop r = (if success r then Success else Failure (stderr r))"

definition create_lines :: "string \<Rightarrow> outcome \<Rightarrow> event list" where
  "create_lines dbName out =
     (case out of
        Success \<Rightarrow> [Log Green (check_mark @ '' Database '' @ quoted dbName @ '' created successfully!'')]
      | AlreadyExists \<Rightarrow> [Log Yellow (warning_sign @ '' Database '' @ quoted dbName @ '' already exists.'')]
      | Failure text \<Rightarrow> [Log Red (ballot_x @ '' Error creating database '' @ quoted dbName @ '':''),
                         Log Red text])"

definition drop_lines :: "string \<Rightarrow> outcome \<Rightarrow> event list" where
  "drop_lines dbName out =
     (case out of
        Success \<Rightarrow> [Log Green (check_mark @ '' Database '' @ quoted dbName @ '' dropped successfully!'')]
      | AlreadyExists \<Rightarrow> []
      | Failure text \<Rightarrow> [Log Red (ballot_x @ '' Error dropping database '' @ quoted dbName @ '':''),
                         Log Red text])"

text \<open>What \<^verbatim>\<open>executePsqlCommand\<close> makes of the answer of \<^verbatim>\<open>exec\<close>.\<close>

definition psql_result_of :: "error + string \<times> string \<Rightarrow> psql_result" where
  "psql_result_of reply =
     (case reply of
        Inr (out, err) \<Rightarrow> \<lparr>stdout = out, stderr = err, success = True\<rparr>
      | Inl e \<Rightarrow>
          \<lparr>stdout = (case err_stdout e of None \<Rightarrow> '''' | Some s \<Rightarrow> s),
           stderr = (case err_stderr e of
                       None \<Rightarrow> message e
                     | Some s \<Rightarrow> if s = [] then message e else s),
           success = False\<rparr>)"

text \<open>A call of \<^verbatim>\<open>psql -c\<close> without a database option, as an event.\<close>

definition psql_call :: "os \<Rightarrow> string \<Rightarrow> event" where
  "psql_call w sql = Exec (psql_command w sql no_options) (pg_env w) False"

text \<open>The events of \<^verbatim>\<open>createDatabase\<close> up to and including its call of the query tool.\<close>

definition create_request :: "os \<Rightarrow> string \<Rightarrow> event list" where
  "create_request w dbName =
     [Log Blue (''<U+2795> Creating database '' @ quoted dbName @ ''...'' @ newline),
      psql_call w (''CREATE DATABASE '' @ dbName @ '';'')]"

text \<open>The events of \<^verbatim>\<open>dropDatabase\<close> up to and including the terminate statement.\<close>

definition terminate_request :: "os \<Rightarrow> string \<Rightarrow> event list" where
  "terminate_request w dbName =
     [Log Blue (''<U+1F5D1><U+FE0F>  Dropping database '' @ quoted dbName @ ''...'' @ newline),
      psql_call w (terminateSql dbName)]"

text \<open>The events of \<^verbatim>\<open>runDbmateUp\<close> up to and including the start of the migration tool.\<close>

definition migrate_request :: "os \<Rightarrow> string \<Rightarrow> string \<Rightarrow> event list" where
  "migrate_request w dbName migrationsPath =
     [Log Blue (''<U+2B06><U+FE0F>  Running dbmate up (applying migrations to ''
                @ quoted dbName @ '')...'' @ newline),
      Spawn ''dbmate'' [''up'']
        [(''DATABASE_URL'',
          Some (''postgres://'' @ PGUSER w @ '':'' @ interp (process_env w ''PG_PASSWORD'') @ ''@''
                @ PGHOST w @ '':'' @ PGPORT w @ ''/'' @ dbName @ ''?sslmode=disable'')),
         (''DBMATE_MIGRATIONS_DIR'', Some migrationsPath)]
        (platform_win32 w)]"

text \<open>The lines \<^verbatim>\<open>runDbmateUp\<close> prints for one event of the migration tool.\<close>

definition migrate_lines :: "proc_event \<Rightarrow> event list" where
  "migrate_lines ev =
     (case ev of
        ErrorEvent e \<Rightarrow>
          [Log Red (newline @ ballot_x @ '' Error running dbmate:''),
           Log Red (message e),
           Log Yellow (newline @ ''Make sure dbmate is installed and in your PATH.''),
           Log Cyan ''Install dbmate: https://github.com/amacneil/dbmate#installation'']
      | CloseEvent None \<Rightarrow> []
      | CloseEvent (Some c) \<Rightarrow>
          if c = 0 then [Log Green (newline @ check_mark @ '' Migrations applied successfully!'')]
          else [Log Red (newline @ ballot_x @ '' dbmate exited with code '' @ show_int c)])"

text \<open>
  The specification's backup format, decided from the lower-cased extension:
  \<^verbatim>\<open>.dump\<close>, \<^verbatim>\<open>.backup\<close> and \<^verbatim>\<open>.dmp\<close> are the custom archive, everything else is
  plain SQL.
\<close>

datatype backup_format = PlainSql | CustomArchive

definition format_of_extension :: "string \<Rightarrow> backup_format" where
  "format_of_extension ext =
     (if ext \<in> {''.dump'', ''.backup'', ''.dmp''} then CustomArchive else PlainSql)"

subsection \<open>Concrete worlds\<close>

text \<open>The configuration of the specification's scenario, on a POSIX system where every
  command succeeds and no path exists yet.\<close>

definition demo_env :: "string \<Rightarrow> string option" where
  "demo_env name =
     (if name = ''PG_HOST'' then Some ''localhost''
      else if name = ''PG_PORT'' then Some ''5432''
      else if name = ''PG_USER'' then Some ''postgres''
      else if name = ''PG_PASSWORD'' then Some ''pw''
      else None)"

definition demo_os :: os where
  "demo_os =
     \<lparr>process_env = demo_env, platform_win32 = False,
      path_dirname = posix_dirname, path_extname = posix_extname,
      js_toLowerCase = latin1_toLowerCase,
      exec_reply = (\<lambda>t. Inr ('''', '''')),
      spawn_reply = (\<lambda>t. (CloseEvent (Some 0), [])),
      fs_existsSync = (\<lambda>t p. False),
      mkdir_reply = (\<lambda>t. None)\<rparr>"

text \<open>What \<^verbatim>\<open>exec\<close> rejects with when the server answers that the database exists.\<close>

definition exists_error :: "string \<Rightarrow> error" where
  "exists_error dbName =
     \<lparr>message = ''Command failed'', err_stdout = Some '''',
      err_stderr = Some (''ERROR:  database '' @ quoted dbName @ '' already exists'' @ newline)\<rparr>"

text \<open>A server on which the database does not exist before the first command: the first
  call of the query tool succeeds, every later one is answered "already exists".\<close>

definition fresh_server :: "string \<Rightarrow> os" where
  "fresh_server dbName =
     demo_os\<lparr>exec_reply := (\<lambda>t. if length t \<le> 2 then Inr (''CREATE DATABASE'' @ newline, '''')
                                else Inl (exists_error dbName))\<rparr>"

text \<open>A server on which the database exists from the start.\<close>

definition existing_server :: "string \<Rightarrow> os" where
  "existing_server dbName = demo_os\<lparr>exec_reply := (\<lambda>t. Inl (exists_error dbName))\<rparr>"

text \<open>A migration tool ended by a signal: one close event, with exit code null.\<close>

definition signalled_os :: os where
  "signalled_os = demo_os\<lparr>spawn_reply := (\<lambda>t. (CloseEvent None, []))\<rparr>"

text \<open>A server that refuses every command, on a file system where every path exists.\<close>

definition refusing_os :: os where
  "refusing_os =
     demo_os\<lparr>exec_reply := (\<lambda>t. Inl \<lparr>message = ''Command failed'', err_stdout = Some '''',
                                       err_stderr = Some ''FATAL:  connection refused''\<rparr>),
             fs_existsSync := (\<lambda>t p. True)\<rparr>"

text \<open>What \<^verbatim>\<open>backupDatabase\<close> and \<^verbatim>\<open>restoreDatabase\<close> print and run for each format.\<close>

definition dump_announcement :: "backup_format \<Rightarrow> string" where
  "dump_announcement fmt =
     (case fmt of
        CustomArchive \<Rightarrow> ''Creating custom format backup (compressed)...'' @ newline
      | PlainSql \<Rightarrow> ''Creating plain SQL format backup...'' @ newline)"

definition dump_command :: "os \<Rightarrow> string \<Rightarrow> string \<Rightarrow> backup_format \<Rightarrow> string" where
  "dump_command w dbName backupPath fmt =
     (case fmt of
        CustomArchive \<Rightarrow>
          ''pg_dump -h '' @ PGHOST w @ '' -p '' @ PGPORT w @ '' -U '' @ PGUSER w
          @ '' -Fc -f '' @ quoted backupPath @ '' '' @ dbName
      | PlainSql \<Rightarrow>
          ''pg_dump -h '' @ PGHOST w @ '' -p '' @ PGPORT w @ '' -U '' @ PGUSER w
          @ '' '' @ dbName @ '' > '' @ quoted backupPath)"

definition restore_announcement :: "backup_format \<Rightarrow> string" where
  "restore_announcement fmt =
     (case fmt of
        CustomArchive \<Rightarrow> ''Detected custom format backup, using pg_restore...'' @ newline
      | PlainSql \<Rightarrow> ''Detected plain SQL format, using psql...'' @ newline)"

definition restore_command :: "os \<Rightarrow> string \<Rightarrow> string \<Rightarrow> backup_format \<Rightarrow> string" where
  "restore_command w dbName backupPath fmt =
     (case fmt of
        CustomArchive \<Rightarrow>
          ''pg_restore -h '' @ PGHOST w @ '' -p '' @ PGPORT w @ '' -U '' @ PGUSER w
          @ '' -d '' @ dbName @ '' --clean --if-exists --no-owner --no-acl '' @ quoted backupPath
      | PlainSql \<Rightarrow>
          ''psql -P pager=off -h '' @ PGHOST w @ '' -p '' @ PGPORT w @ '' -U '' @ PGUSER w
          @ '' -d '' @ dbName @ '' < '' @ quoted backupPath)"

definition backup_started :: "string \<Rightarrow> string \<Rightarrow> event" where
  "backup_started dbName backupPath =
     Log Blue (''<U+1F4BE> Backing up database '' @ quoted dbName @ '' to ''
               @ quoted backupPath @ ''...'' @ newline)"

definition backup_lines :: "string \<Rightarrow> string \<Rightarrow> error + string \<times> string \<Rightarrow> event list" where
  "backup_lines dbName backupPath reply =
     (case reply of
        Inr _ \<Rightarrow> [Log Green (check_mark @ '' Database '' @ quoted dbName
                              @ '' backed up successfully to '' @ quoted backupPath @ ''!'')]
      | Inl e \<Rightarrow> [Log Red (ballot_x @ '' Error backing up database:''), Log Red (message e)])"

definition restore_started :: "string \<Rightarrow> string \<Rightarrow> event" where
  "restore_started dbName backupPath =
     Log Blue (''<U+267B><U+FE0F>  Restoring database '' @ quoted dbName @ '' from ''
               @ quoted backupPath @ ''...'' @ newline)"

definition clone_started :: "string \<Rightarrow> string \<Rightarrow> event" where
  "clone_started sourceDb targetDb =
     Log Blue (''<U+1F4CB> Cloning database '' @ quoted sourceDb @ '' to ''
               @ quoted targetDb @ ''...'' @ newline)"

text \<open>The copy step of clone: one pipeline from the dump tool into the query tool.\<close>

definition copy_step :: "os \<Rightarrow> string \<Rightarrow> string \<Rightarrow> event" where
  "copy_step w sourceDb targetDb =
     Exec (''pg_dump -h '' @ PGHOST w @ '' -p '' @ PGPORT w @ '' -U '' @ PGUSER w @ '' '' @ sourceDb
           @ '' | psql -P pager=off -h '' @ PGHOST w @ '' -p '' @ PGPORT w @ '' -U '' @ PGUSER w
           @ '' '' @ targetDb)
       (pg_env w) True"

definition copy_lines :: "string \<Rightarrow> string \<Rightarrow> error + string \<times> string \<Rightarrow> event list" where
  "copy_lines sourceDb targetDb reply =
     (case reply of
        Inr _ \<Rightarrow> [Log Green (check_mark @ '' Database '' @ quoted sourceDb @ '' cloned to ''
                              @ quoted targetDb @ '' successfully!'')]
      | Inl e \<Rightarrow> [Log Red (ballot_x @ '' Error cloning database:''), Log Red (message e)])"

definition reset_started :: "string \<Rightarrow> event" where
  "reset_started dbName =
     Log Blue (''<U+1F504> Resetting database '' @ quoted dbName @ ''...'' @ newline)"

text \<open>An override connection string in the configuration.\<close>

definition override_os :: os where
  "override_os =
     demo_os\<lparr>process_env := demo_env(''DATABASE_URL'' := Some ''postgres://ci:secret@db:6432/ci?sslmode=disable'')\<rparr>"

text \<open>A query tool that is killed before it writes anything: \<^verbatim>\<open>exec\<close> rejects with an
  empty captured error stream.\<close>

definition killed_os :: os where
  "killed_os =
     demo_os\<lparr>exec_reply := (\<lambda>t. Inl \<lparr>message = ''Command failed: psql'',
                                       err_stdout = Some '''', err_stderr = Some ''''\<rparr>)\<rparr>"

text \<open>A server that refuses the first command of a run and accepts the later ones.\<close>

definition flaky_os :: os where
  "flaky_os =
     demo_os\<lparr>exec_reply := (\<lambda>t. if length t \<le> 2
                                then Inl \<lparr>message = ''Command failed: psql'', err_stdout = Some '''',
                                         err_stderr = Some ''FATAL:  connection refused''\<rparr>
                                else Inr (''DROP DATABASE'' @ newline, ''''))\<rparr>"

text \<open>The lines \<^verbatim>\<open>restoreDatabase\<close> prints once the restore command has ended.\<close>

definition restore_lines :: "string \<Rightarrow> string \<Rightarrow> backup_format \<Rightarrow> error + string \<times> string \<Rightarrow> event list" where
  "restore_lines dbName backupPath fmt reply =
     (case reply of
        Inr _ \<Rightarrow> [Log Green (check_mark @ '' Database '' @ quoted dbName
                              @ '' restored successfully from '' @ quoted backupPath @ ''!'')]
      | Inl e \<Rightarrow>
          [Log Red (ballot_x @ '' Error restoring database:''),
           Log Red (case err_stderr e of
                      None \<Rightarrow> message e
                    | Some s \<Rightarrow> if s = [] then message e else s)]
          @ (if fmt = CustomArchive \<and> js_includes (message e) ''pg_restore''
             then [Log Yellow (newline @ ''Make sure pg_restore is installed and in your PATH.'')]
             else []))"

text \<open>A file system where every path exists, with tools that succeed.\<close>

definition stocked_os :: os where
  "stocked_os = demo_os\<lparr>fs_existsSync := (\<lambda>t p. True)\<rparr>"

section \<open>Properties\<close>

subsection \<open>How the building blocks run\<close>

lemma executePsqlCommand_run:
  "executePsqlCommand w sql options t =
     (Inr (psql_result_of (exec_reply w (t @ [Exec (psql_command w sql options) (pg_env w) False]))),
      t @ [Exec (psql_command w sql options) (pg_env w) False])"
  by (simp add: executePsqlCommand_def psql_result_of_def ret_def bind_def try_catch_def
        execAsync_def or_else_def Let_def split: sum.splits prod.splits option.splits)

lemma bind_executePsqlCommand:
  "bind (executePsqlCommand w sql no_options) k t =
     k (psql_result_of (exec_reply w (t @ [psql_call w sql]))) (t @ [psql_call w sql])"
  by (simp add: bind_def executePsqlCommand_run psql_call_def)

lemma seq_console_log: "seq (console_log c s) k t = k (t @ [Log c s])"
  by (simp add: seq_def bind_def console_log_def)

lemma try_exec:
  "try_catch (bind (execAsync w command env shell) (\<lambda>_. console_log c s)) h t =
     (case exec_reply w (t @ [Exec command env shell]) of
        Inr _ \<Rightarrow> (Inr (), t @ [Exec command env shell, Log c s])
      | Inl e \<Rightarrow> h e (t @ [Exec command env shell]))"
  by (simp add: try_catch_def bind_def execAsync_def console_log_def Let_def split: sum.splits)

lemma createDatabase_run:
  "createDatabase w dbName t =
     (Inr (), t @ create_request w dbName
        @ create_lines dbName
            (classify_create (psql_result_of (exec_reply w (t @ create_request w dbName)))))"
  by (simp add: createDatabase_def seq_console_log bind_executePsqlCommand create_request_def
        create_lines_def classify_create_def console_log_def)

lemma dropDatabase_run:
  "dropDatabase w dbName t =
     (Inr (), t @ terminate_request w dbName
        @ [psql_call w (''DROP DATABASE IF EXISTS '' @ dbName @ '';'')]
        @ drop_lines dbName
            (classify_drop (psql_result_of (exec_reply w
               (t @ terminate_request w dbName
                  @ [psql_call w (''DROP DATABASE IF EXISTS '' @ dbName @ '';'')])))))"
  by (simp add: dropDatabase_def seq_console_log bind_executePsqlCommand terminate_request_def
        drop_lines_def classify_drop_def console_log_def)

lemma cloneDatabase_run:
  "cloneDatabase w sourceDb targetDb t =
     (let t1 = t @ [clone_started sourceDb targetDb,
                    psql_call w (''CREATE DATABASE '' @ targetDb @ '';'')];
          createResult = psql_result_of (exec_reply w t1)
      in if \<not> success createResult \<and> \<not> js_includes (stderr createResult) ''already exists''
         then (Inr (), t1 @ [Log Red (ballot_x @ '' Error creating target database ''
                                      @ quoted targetDb @ '':''),
                             Log Red (stderr createResult)])
         else (Inr (), t1 @ [copy_step w sourceDb targetDb]
                 @ copy_lines sourceDb targetDb (exec_reply w (t1 @ [copy_step w sourceDb targetDb]))))"
  by (simp add: cloneDatabase_def clone_started_def copy_step_def copy_lines_def clone_command_def
        seq_console_log bind_executePsqlCommand Let_def try_exec console_log_def
        split: sum.splits)

lemma backup_select_run:
  "backup_select w dbName backupPath t =
     (Inr (dump_command w dbName backupPath
             (format_of_extension (js_toLowerCase w (path_extname w backupPath)))),
      t @ [Log Cyan (dump_announcement
                      (format_of_extension (js_toLowerCase w (path_extname w backupPath))))])"
  by (simp add: backup_select_def format_of_extension_def dump_command_def dump_announcement_def
        seq_console_log ret_def pg_dump_prefix_def Let_def)

lemma restore_select_run:
  "restore_select w dbName backupPath t =
     (Inr (format_of_extension (js_toLowerCase w (path_extname w backupPath)) = CustomArchive,
           restore_command w dbName backupPath
             (format_of_extension (js_toLowerCase w (path_extname w backupPath)))),
      t @ [Log Cyan (restore_announcement
                      (format_of_extension (js_toLowerCase w (path_extname w backupPath))))])"
  by (simp add: restore_select_def format_of_extension_def restore_command_def
        restore_announcement_def seq_console_log ret_def Let_def)

lemma backupDatabase_run:
  "backupDatabase w dbName backupPath t =
     (let t0 = t @ [backup_started dbName backupPath];
          dir = path_dirname w backupPath;
          fmt = format_of_extension (js_toLowerCase w (path_extname w backupPath))
      in case (if fs_existsSync w t0 dir then None else mkdir_reply w (t0 @ [Mkdir dir True])) of
           Some e \<Rightarrow> (Inl e, t0 @ [Mkdir dir True])
         | None \<Rightarrow>
             (let t1 = (if fs_existsSync w t0 dir then t0 else t0 @ [Mkdir dir True])
                       @ [Log Cyan (dump_announcement fmt),
                          Exec (dump_command w dbName backupPath fmt) (pg_env w) True]
              in (Inr (), t1 @ backup_lines dbName backupPath (exec_reply w t1))))"
  by (simp add: backupDatabase_def backup_started_def seq_console_log Let_def seq_def bind_def
        existsSync_def mkdirSync_def ret_def backup_select_run try_exec console_log_def
        backup_lines_def
        split: option.splits sum.splits)

lemma restoreDatabase_run:
  "restoreDatabase w dbName backupPath t =
     (let t0 = t @ [restore_started dbName backupPath];
          fmt = format_of_extension (js_toLowerCase w (path_extname w backupPath))
      in if \<not> fs_existsSync w t0 backupPath
         then (Inr (), t0 @ [Log Red (ballot_x @ '' Backup file '' @ quoted backupPath
                                      @ '' not found!'')])
         else (let t1 = t0 @ [Log Cyan (restore_announcement fmt),
                              Exec (restore_command w dbName backupPath fmt) (pg_env w) True]
               in (Inr (), t1 @ restore_lines dbName backupPath fmt (exec_reply w t1))))"
  by (simp add: restoreDatabase_def restore_started_def seq_console_log Let_def seq_def bind_def
        existsSync_def ret_def restore_select_run try_exec console_log_def restore_lines_def
        or_else_def
        split: option.splits sum.splits)

lemma listeners_run:
  "listeners dbmate_up_listener evs t = (Inr (), t @ concat (map migrate_lines evs))"
proof (induction evs arbitrary: t)
  case Nil
  show ?case by (simp add: ret_def)
next
  case (Cons ev evs)
  have step: "dbmate_up_listener ev t = (Inr (), t @ migrate_lines ev)"
    by (simp add: dbmate_up_listener_def migrate_lines_def seq_console_log console_log_def ret_def
          split: proc_event.splits option.splits)
  show ?case
    by (simp add: seq_def bind_def step Cons.IH)
qed

lemma runDbmateUp_run:
  assumes "dbName \<noteq> []"
  shows "runDbmateUp w dbName (Some migrationsPath) t =
           (Inr (), t @ migrate_request w dbName migrationsPath
              @ concat (map migrate_lines
                  (fst (spawn_reply w (t @ migrate_request w dbName migrationsPath))
                   # snd (spawn_reply w (t @ migrate_request w dbName migrationsPath)))))"
  using assms
  by (simp add: runDbmateUp_def getDatabaseUrl_def truthy_def interp_def seq_console_log
        migrate_request_def PGUSER_def PGHOST_def PGPORT_def default_migrationsPath_def
        bind_def spawn_def Let_def listeners_run case_prod_unfold del: listeners.simps)

text \<open>The definitions that turn a run in a concrete world into its list of events.\<close>

lemmas concrete_defs =
  create_request_def create_lines_def terminate_request_def drop_lines_def migrate_request_def
  migrate_lines_def reset_started_def psql_call_def psql_command_def pg_env_def
  PGHOST_def PGPORT_def PGUSER_def demo_env_def interp_def no_options_def truthy_def
  quoted_def check_mark_def warning_sign_def ballot_x_def classify_create_def classify_drop_def
  psql_result_of_def default_migrationsPath_def

subsection \<open>The query tool never throws\<close>

text \<open>
  Claim C9. \<^verbatim>\<open>executePsqlCommand\<close> returns a record for every statement, every option
  and every answer of the outside world: it never throws. The record is
  \<open>psql_result_of\<close> of the answer of \<^verbatim>\<open>exec\<close>: when the command fails, \<open>success\<close> is
  false and \<open>stderr\<close> is the captured error stream, or the message of the error when
  nothing was captured. The operations built on it (create, drop and clone here) therefore
  return normally too: a failing tool reaches them as data.
\<close>

theorem executePsqlCommand_total:
  "executePsqlCommand w sql options t =
     (Inr (psql_result_of (exec_reply w (t @ [Exec (psql_command w sql options) (pg_env w) False]))),
      t @ [Exec (psql_command w sql options) (pg_env w) False])
   \<and> success (psql_result_of (Inl e)) = False
   \<and> stderr (psql_result_of (Inl e)) =
       (case err_stderr e of None \<Rightarrow> message e | Some s \<Rightarrow> if s = [] then message e else s)
   \<and> fst (createDatabase w dbName t) = Inr ()
   \<and> fst (dropDatabase w dbName t) = Inr ()
   \<and> fst (cloneDatabase w sourceDb targetDb t) = Inr ()"
  by (simp add: executePsqlCommand_run createDatabase_run dropDatabase_run cloneDatabase_run
        psql_result_of_def Let_def)

text \<open>A query tool killed before it wrote anything: the record carries the message of the
  error.\<close>

theorem executePsqlCommand_total_witness:
  \<open>executePsqlCommand killed_os ''SELECT 1;'' \<lparr>database = Some ''app''\<rparr> [] =
     (Inr \<lparr>stdout = '''', stderr = ''Command failed: psql'', success = False\<rparr>,
      [Exec ''psql -P pager=off -h localhost -p 5432 -U postgres -d app -c "SELECT 1;"''
         [(''PGHOST'', Some ''localhost''), (''PGPORT'', Some ''5432''),
          (''PGUSER'', Some ''postgres''), (''PGPASSWORD'', Some ''pw'')] False])\<close>
proof -
  have world: "process_env killed_os = demo_env"
    "exec_reply killed_os = (\<lambda>t. Inl \<lparr>message = ''Command failed: psql'',
                                          err_stdout = Some '''', err_stderr = Some ''''\<rparr>)"
    by (simp_all add: killed_os_def demo_os_def)
  from executePsqlCommand_total [of killed_os "''SELECT 1;''" "\<lparr>database = Some ''app''\<rparr>" "[]"]
  show ?thesis
    by (simp add: world concrete_defs)
qed

subsection \<open>Drop: connections are terminated first, the drop is always issued\<close>

lemma psql_call_same_env: "psql_call (w\<lparr>exec_reply := f\<rparr>) sql = psql_call w sql"
  by (simp add: psql_call_def psql_command_def pg_env_def PGHOST_def PGPORT_def PGUSER_def)

text \<open>
  Claim C6. For every database name and every behaviour of the tools, \<^verbatim>\<open>dropDatabase\<close>
  first hands the query tool the statement that terminates every backend connected to
  that database except its own:
  \<^verbatim>\<open>SELECT pg_terminate_backend(pg_stat_activity.pid) FROM pg_stat_activity WHERE
  pg_stat_activity.datname = '<dbName>' AND pid <> pg_backend_pid();\<close>
  (on four lines). It then always issues \<^verbatim>\<open>DROP DATABASE IF EXISTS <dbName>;\<close> and
  reports the outcome of that second statement only. The answer to the first statement is
  discarded: replacing it by any other answer \<open>r\<close>, a failure of the query tool included,
  changes nothing in what the function does.
\<close>

theorem dropDatabase_always_drops:
  "(let terminate =
          psql_call w
            (newline @ ''    SELECT pg_terminate_backend(pg_stat_activity.pid)''
             @ newline @ ''    FROM pg_stat_activity''
             @ newline @ ''    WHERE pg_stat_activity.datname = '' @ [CHR 0x27] @ dbName @ [CHR 0x27]
             @ newline @ ''    AND pid <> pg_backend_pid();''
             @ newline @ ''  '');
        t1 = t @ [Log Blue (''<U+1F5D1><U+FE0F>  Dropping database '' @ quoted dbName @ ''...'' @ newline),
                  terminate];
        t2 = t1 @ [psql_call w (''DROP DATABASE IF EXISTS '' @ dbName @ '';'')]
    in dropDatabase w dbName t =
         (Inr (), t2 @ drop_lines dbName (classify_drop (psql_result_of (exec_reply w t2))))
       \<and> dropDatabase (w\<lparr>exec_reply := (exec_reply w)(t1 := r)\<rparr>) dbName t = dropDatabase w dbName t)"
  by (simp add: dropDatabase_run terminate_request_def terminateSql_def psql_call_same_env Let_def)

text \<open>The terminate statement fails, the drop statement is issued and succeeds.\<close>

theorem dropDatabase_always_drops_witness:
  \<open>dropDatabase flaky_os ''app'' [] =
     (Inr (),
      [Log Blue (''<U+1F5D1><U+FE0F>  Dropping database "app"...'' @ newline),
       Exec (''psql -P pager=off -h localhost -p 5432 -U postgres  -c "''
             @ newline @ ''    SELECT pg_terminate_backend(pg_stat_activity.pid)''
             @ newline @ ''    FROM pg_stat_activity''
             @ newline @ ''    WHERE pg_stat_activity.datname = '' @ [CHR 0x27] @ ''app'' @ [CHR 0x27]
             @ newline @ ''    AND pid <> pg_backend_pid();''
             @ newline @ ''  "'')
         [(''PGHOST'', Some ''localhost''), (''PGPORT'', Some ''5432''),
          (''PGUSER'', Some ''postgres''), (''PGPASSWORD'', Some ''pw'')] False,
       Exec ''psql -P pager=off -h localhost -p 5432 -U postgres  -c "DROP DATABASE IF EXISTS app;"''
         [(''PGHOST'', Some ''localhost''), (''PGPORT'', Some ''5432''),
          (''PGUSER'', Some ''postgres''), (''PGPASSWORD'', Some ''pw'')] False,
       Log Green ''<U+2713> Database "app" dropped successfully!''])
   \<and> exec_reply flaky_os
        [Log Blue (''<U+1F5D1><U+FE0F>  Dropping database "app"...'' @ newline),
         Exec (''psql -P pager=off -h localhost -p 5432 -U postgres  -c "''
               @ newline @ ''    SELECT pg_terminate_backend(pg_stat_activity.pid)''
               @ newline @ ''    FROM pg_stat_activity''
               @ newline @ ''    WHERE pg_stat_activity.datname = '' @ [CHR 0x27] @ ''app'' @ [CHR 0x27]
               @ newline @ ''    AND pid <> pg_backend_pid();''
               @ newline @ ''  "'')
           [(''PGHOST'', Some ''localhost''), (''PGPORT'', Some ''5432''),
            (''PGUSER'', Some ''postgres''), (''PGPASSWORD'', Some ''pw'')] False] =
       Inl \<lparr>message = ''Command failed: psql'', err_stdout = Some '''',
            err_stderr = Some ''FATAL:  connection refused''\<rparr>\<close>
proof -
  have world: "process_env flaky_os = demo_env"
    "exec_reply flaky_os =
       (\<lambda>t. if length t \<le> 2
            then Inl \<lparr>message = ''Command failed: psql'', err_stdout = Some '''',
                     err_stderr = Some ''FATAL:  connection refused''\<rparr>
            else Inr (''DROP DATABASE'' @ newline, ''''))"
    by (simp_all add: flaky_os_def demo_os_def)
  from dropDatabase_always_drops [of flaky_os "''app''" "[]"]
  show ?thesis
    by (simp add: Let_def world newline_def concrete_defs)
qed

subsection \<open>Restore of a missing file\<close>

text \<open>
  Claim C3. When the backup path does not exist at the moment \<^verbatim>\<open>restoreDatabase\<close> looks
  for it, the function prints that the file was not found and returns: the only events are
  its two lines of output, so no external tool is invoked.
\<close>

theorem restoreDatabase_missing_file:
  assumes "\<not> fs_existsSync w (t @ [restore_started dbName backupPath]) backupPath"
  shows "restoreDatabase w dbName backupPath t =
           (Inr (), t @ [restore_started dbName backupPath,
                         Log Red (ballot_x @ '' Backup file '' @ quoted backupPath @ '' not found!'')])"
  using assms
  by (simp add: restoreDatabase_def restore_started_def seq_console_log bind_def existsSync_def
        console_log_def)

theorem restoreDatabase_missing_file_witness:
  \<open>\<not> fs_existsSync demo_os [restore_started ''app'' ''./backups/app.sql''] ''./backups/app.sql''
   \<and> restoreDatabase demo_os ''app'' ''./backups/app.sql'' [] =
       (Inr (), [Log Blue (''<U+267B><U+FE0F>  Restoring database "app" from "./backups/app.sql"...'' @ newline),
                 Log Red ''<U+2717> Backup file "./backups/app.sql" not found!''])\<close>
  using restoreDatabase_missing_file [of demo_os "[]" "''app''" "''./backups/app.sql''"]
  by (simp add: demo_os_def restore_started_def quoted_def ballot_x_def)

subsection \<open>Clone: when the copy step runs\<close>

text \<open>
  Claim C2. \<^verbatim>\<open>cloneDatabase\<close> first creates the target. When that fails with an error
  text that does not contain "already exists", it prints the error text and stops: the
  copy step is not run. In every other case (the create succeeded, or its error text says
  the target already exists) the copy step is run: a single pipeline from the dump of the
  source into the query tool on the target. So the copy step is among the events of a run
  exactly when the create succeeded or its error text contains "already exists".
\<close>

theorem cloneDatabase_aborts_iff:
  "cloneDatabase w sourceDb targetDb t =
     (let t1 = t @ [clone_started sourceDb targetDb,
                    psql_call w (''CREATE DATABASE '' @ targetDb @ '';'')];
          createResult = psql_result_of (exec_reply w t1)
      in if \<not> success createResult \<and> \<not> js_includes (stderr createResult) ''already exists''
         then (Inr (), t1 @ [Log Red (ballot_x @ '' Error creating target database ''
                                      @ quoted targetDb @ '':''),
                             Log Red (stderr createResult)])
         else (Inr (), t1 @ [copy_step w sourceDb targetDb]
                 @ copy_lines sourceDb targetDb (exec_reply w (t1 @ [copy_step w sourceDb targetDb]))))
   \<and> (copy_step w sourceDb targetDb \<in> set (drop (length t) (snd (cloneDatabase w sourceDb targetDb t))))
       = (success (psql_result_of (exec_reply w
                    (t @ [clone_started sourceDb targetDb,
                          psql_call w (''CREATE DATABASE '' @ targetDb @ '';'')])))
          \<or> js_includes (stderr (psql_result_of (exec_reply w
                    (t @ [clone_started sourceDb targetDb,
                          psql_call w (''CREATE DATABASE '' @ targetDb @ '';'')])))) ''already exists'')"
proof -
  have distinct: "copy_step w sourceDb targetDb \<noteq> clone_started sourceDb targetDb"
    "copy_step w sourceDb targetDb \<noteq> psql_call w sql"
    "copy_step w sourceDb targetDb \<noteq> Log c s" for sql c s
    by (simp_all add: copy_step_def clone_started_def psql_call_def)
  show ?thesis
    by (simp add: cloneDatabase_run Let_def distinct)
qed

text \<open>
  A target that already exists is copied into; a server that refuses the create stops
  the clone before the copy.
\<close>

theorem cloneDatabase_aborts_iff_witness:
  \<open>cloneDatabase (existing_server ''app_copy'') ''app'' ''app_copy'' [] =
     (Inr (),
      [Log Blue (''<U+1F4CB> Cloning database "app" to "app_copy"...'' @ newline),
       Exec ''psql -P pager=off -h localhost -p 5432 -U postgres  -c "CREATE DATABASE app_copy;"''
         [(''PGHOST'', Some ''localhost''), (''PGPORT'', Some ''5432''),
          (''PGUSER'', Some ''postgres''), (''PGPASSWORD'', Some ''pw'')] False,
       Exec ''pg_dump -h localhost -p 5432 -U postgres app | psql -P pager=off -h localhost -p 5432 -U postgres app_copy''
         [(''PGHOST'', Some ''localhost''), (''PGPORT'', Some ''5432''),
          (''PGUSER'', Some ''postgres''), (''PGPASSWORD'', Some ''pw'')] True,
       Log Red ''<U+2717> Error cloning database:'',
       Log Red ''Command failed''])
   \<and> cloneDatabase refusing_os ''app'' ''app_copy'' [] =
     (Inr (),
      [Log Blue (''<U+1F4CB> Cloning database "app" to "app_copy"...'' @ newline),
       Exec ''psql -P pager=off -h localhost -p 5432 -U postgres  -c "CREATE DATABASE app_copy;"''
         [(''PGHOST'', Some ''localhost''), (''PGPORT'', Some ''5432''),
          (''PGUSER'', Some ''postgres''), (''PGPASSWORD'', Some ''pw'')] False,
       Log Red ''<U+2717> Error creating target database "app_copy":'',
       Log Red ''FATAL:  connection refused''])\<close>
proof -
  have world: "process_env (existing_server ''app_copy'') = demo_env"
    "exec_reply (existing_server ''app_copy'') = (\<lambda>t. Inl (exists_error ''app_copy''))"
    "process_env refusing_os = demo_env"
    "exec_reply refusing_os =
       (\<lambda>t. Inl \<lparr>message = ''Command failed'', err_stdout = Some '''',
                 err_stderr = Some ''FATAL:  connection refused''\<rparr>)"
    by (simp_all add: existing_server_def refusing_os_def demo_os_def)
  have exists: "js_includes (stderr (psql_result_of (Inl (exists_error ''app_copy'')))) ''already exists''"
    by code_simp
  have refused: "\<not> js_includes ''FATAL:  connection refused'' ''already exists''"
    by code_simp
  have failed: "\<not> success (psql_result_of (Inl (exists_error ''app_copy'')))"
    "message (exists_error ''app_copy'') = ''Command failed''"
    by (simp_all add: psql_result_of_def exists_error_def)
  from cloneDatabase_aborts_iff [of "existing_server ''app_copy''" "''app''" "''app_copy''" "[]"]
  have existing: "cloneDatabase (existing_server ''app_copy'') ''app'' ''app_copy'' [] =
     (Inr (), [clone_started ''app'' ''app_copy'',
               psql_call (existing_server ''app_copy'') (''CREATE DATABASE '' @ ''app_copy'' @ '';''),
               copy_step (existing_server ''app_copy'') ''app'' ''app_copy'']
              @ copy_lines ''app'' ''app_copy'' (Inl (exists_error ''app_copy'')))"
    by (simp add: Let_def world exists failed)
  from cloneDatabase_aborts_iff [of refusing_os "''app''" "''app_copy''" "[]"] refused
  have refusing: "cloneDatabase refusing_os ''app'' ''app_copy'' [] =
     (Inr (), [clone_started ''app'' ''app_copy'',
               psql_call refusing_os (''CREATE DATABASE '' @ ''app_copy'' @ '';''),
               Log Red (ballot_x @ '' Error creating target database '' @ quoted ''app_copy'' @ '':''),
               Log Red ''FATAL:  connection refused''])"
    by (simp add: Let_def world psql_result_of_def)
  show ?thesis
    unfolding existing refusing
    by (simp add: world failed clone_started_def copy_step_def copy_lines_def concrete_defs)
qed

subsection \<open>Create: how the outcome is classified\<close>

text \<open>
  Claim C5, as amended. For every database name, \<^verbatim>\<open>createDatabase\<close> issues
  \<^verbatim>\<open>CREATE DATABASE <dbName>;\<close> and reports the result of the query tool as the
  specification classifies it: exit status zero is success; a failure whose error text
  contains "already exists" is reported as already existing, a warning and not an error;
  any other failure is reported as an error together with the error text. Consequently
  two creates of the same name in a row report success and then "already exists" whenever
  the query tool accepts the first command and answers the second with an error text that
  contains "already exists", as a server does for a name that did not exist before.
\<close>

theorem createDatabase_classifies:
  "createDatabase w dbName t =
     (Inr (), t @ create_request w dbName
        @ create_lines dbName
            (classify_create (psql_result_of (exec_reply w (t @ create_request w dbName)))))
   \<and> (exec_reply w (t @ create_request w dbName) = Inr (out, err) \<longrightarrow>
        exec_reply w (t @ create_request w dbName @ create_lines dbName Success
                        @ create_request w dbName) = Inl e \<longrightarrow>
        js_includes (stderr (psql_result_of (Inl e))) ''already exists'' \<longrightarrow>
        seq (createDatabase w dbName) (createDatabase w dbName) t =
          (Inr (), t @ create_request w dbName @ create_lines dbName Success
             @ create_request w dbName @ create_lines dbName AlreadyExists))"
proof -
  have ok: "classify_create (psql_result_of (Inr (out, err))) = Success"
    by (simp add: classify_create_def psql_result_of_def)
  have again: "classify_create (psql_result_of (Inl e)) = AlreadyExists"
    if "js_includes (stderr (psql_result_of (Inl e))) ''already exists''"
    using that by (simp add: classify_create_def psql_result_of_def)
  show ?thesis
    by (simp add: createDatabase_run seq_def bind_def ok again)
qed

text \<open>On a server where the database \<^verbatim>\<open>app\<close> does not exist yet.\<close>

theorem createDatabase_classifies_witness:
  \<open>seq (createDatabase (fresh_server ''app'') ''app'') (createDatabase (fresh_server ''app'') ''app'') [] =
     (Inr (),
      [Log Blue (''<U+2795> Creating database "app"...'' @ newline),
       Exec ''psql -P pager=off -h localhost -p 5432 -U postgres  -c "CREATE DATABASE app;"''
         [(''PGHOST'', Some ''localhost''), (''PGPORT'', Some ''5432''),
          (''PGUSER'', Some ''postgres''), (''PGPASSWORD'', Some ''pw'')] False,
       Log Green ''<U+2713> Database "app" created successfully!'',
       Log Blue (''<U+2795> Creating database "app"...'' @ newline),
       Exec ''psql -P pager=off -h localhost -p 5432 -U postgres  -c "CREATE DATABASE app;"''
         [(''PGHOST'', Some ''localhost''), (''PGPORT'', Some ''5432''),
          (''PGUSER'', Some ''postgres''), (''PGPASSWORD'', Some ''pw'')] False,
       Log Yellow ''<U+26A0> Database "app" already exists.''])\<close>
proof -
  have first: "exec_reply (fresh_server ''app'') ([] @ create_request (fresh_server ''app'') ''app'')
                 = Inr (''CREATE DATABASE'' @ newline, '''')"
    by (simp add: fresh_server_def create_request_def)
  have second: "exec_reply (fresh_server ''app'')
                  ([] @ create_request (fresh_server ''app'') ''app'' @ create_lines ''app'' Success
                      @ create_request (fresh_server ''app'') ''app'') = Inl (exists_error ''app'')"
    by (simp add: fresh_server_def create_request_def create_lines_def)
  have incl: "js_includes (stderr (psql_result_of (Inl (exists_error ''app'')))) ''already exists''"
    by code_simp
  have env: "process_env (fresh_server ''app'') = demo_env" "platform_win32 (fresh_server ''app'') = False"
    by (simp_all add: fresh_server_def demo_os_def)
  from createDatabase_classifies [where w = "fresh_server ''app''" and t = "[]" and dbName = "''app''"
      and out = "''CREATE DATABASE'' @ newline" and err = "''''" and e = "exists_error ''app''"]
    first second incl
  show ?thesis
    by (simp add: create_request_def create_lines_def psql_call_def psql_command_def pg_env_def
          PGHOST_def PGPORT_def PGUSER_def env demo_env_def interp_def no_options_def truthy_def
          quoted_def check_mark_def warning_sign_def)
qed

text \<open>
  Without the condition on the answers the consequence fails: on a server where the
  database exists from the start (\<^verbatim>\<open>postgres\<close> always does), the first of two creates
  already reports "already exists". And the text a failure carries is not always the
  captured error stream: when that is empty, it is the message of the error.
\<close>

theorem create_twice_on_existing_database:
  \<open>safe_name ''postgres''
   \<and> seq (createDatabase (existing_server ''postgres'') ''postgres'')
          (createDatabase (existing_server ''postgres'') ''postgres'') [] =
       (Inr (),
        [Log Blue (''<U+2795> Creating database "postgres"...'' @ newline),
         Exec ''psql -P pager=off -h localhost -p 5432 -U postgres  -c "CREATE DATABASE postgres;"''
           [(''PGHOST'', Some ''localhost''), (''PGPORT'', Some ''5432''),
            (''PGUSER'', Some ''postgres''), (''PGPASSWORD'', Some ''pw'')] False,
         Log Yellow ''<U+26A0> Database "postgres" already exists.'',
         Log Blue (''<U+2795> Creating database "postgres"...'' @ newline),
         Exec ''psql -P pager=off -h localhost -p 5432 -U postgres  -c "CREATE DATABASE postgres;"''
           [(''PGHOST'', Some ''localhost''), (''PGPORT'', Some ''5432''),
            (''PGUSER'', Some ''postgres''), (''PGPASSWORD'', Some ''pw'')] False,
         Log Yellow ''<U+26A0> Database "postgres" already exists.''])
   \<and> createDatabase killed_os ''app'' [] =
       (Inr (),
        [Log Blue (''<U+2795> Creating database "app"...'' @ newline),
         Exec ''psql -P pager=off -h localhost -p 5432 -U postgres  -c "CREATE DATABASE app;"''
           [(''PGHOST'', Some ''localhost''), (''PGPORT'', Some ''5432''),
            (''PGUSER'', Some ''postgres''), (''PGPASSWORD'', Some ''pw'')] False,
         Log Red ''<U+2717> Error creating database "app":'',
         Log Red ''Command failed: psql''])\<close>
proof -
  have name: "safe_name ''postgres''"
    by code_simp
  have again: "classify_create (psql_result_of (Inl (exists_error ''postgres''))) = AlreadyExists"
    by code_simp
  have killed: "classify_create (psql_result_of
                  (Inl \<lparr>message = ''Command failed: psql'', err_stdout = Some '''', err_stderr = Some ''''\<rparr>))
                = Failure ''Command failed: psql''"
    by code_simp
  have world: "process_env (existing_server ''postgres'') = demo_env"
    "exec_reply (existing_server ''postgres'') = (\<lambda>t. Inl (exists_error ''postgres''))"
    "process_env killed_os = demo_env"
    "exec_reply killed_os = (\<lambda>t. Inl \<lparr>message = ''Command failed: psql'',
                                          err_stdout = Some '''', err_stderr = Some ''''\<rparr>)"
    by (simp_all add: existing_server_def killed_os_def demo_os_def)
  show ?thesis
    using name
    by (simp add: createDatabase_run seq_def bind_def world again killed
          create_request_def create_lines_def psql_call_def psql_command_def pg_env_def
          PGHOST_def PGPORT_def PGUSER_def demo_env_def interp_def no_options_def truthy_def
          quoted_def check_mark_def warning_sign_def ballot_x_def)
qed

subsection \<open>Reset: drop, create, migrate\<close>

text \<open>
  Claim C1, as amended. For every non-empty database name and every migrations path,
  \<^verbatim>\<open>resetDatabase\<close> attempts exactly three steps in order, whatever the earlier steps
  answer: drop (the terminate statement, then the drop statement), create, and the start of
  the migration tool with the connection string of the database and the migrations
  directory. The outcome of drop is printed before create starts and the outcome of create
  before the migration tool starts; both are never empty. For the migration tool a line is
  printed for each of its events except a close with exit code null (a tool ended by a
  signal), for which nothing is printed.
\<close>

theorem resetDatabase_three_steps:
  assumes "dbName \<noteq> []"
  shows "resetDatabase w dbName migrationsPath t =
           (let t1 = t @ [reset_started dbName] @ terminate_request w dbName
                       @ [psql_call w (''DROP DATABASE IF EXISTS '' @ dbName @ '';'')];
                t2 = t1 @ drop_lines dbName (classify_drop (psql_result_of (exec_reply w t1)))
                        @ [Log Plain ''''] @ create_request w dbName;
                t3 = t2 @ create_lines dbName (classify_create (psql_result_of (exec_reply w t2)))
                        @ [Log Plain '''']
                        @ migrate_request w dbName (default_migrationsPath migrationsPath)
            in (Inr (), t3 @ concat (map migrate_lines (fst (spawn_reply w t3) # snd (spawn_reply w t3)))))
         \<and> drop_lines dbName (classify_drop r) \<noteq> []
         \<and> create_lines dbName (classify_create r) \<noteq> []
         \<and> (migrate_lines ev = []) = (ev = CloseEvent None)"
proof -
  have run: "resetDatabase w dbName migrationsPath t =
           (let t1 = t @ [reset_started dbName] @ terminate_request w dbName
                       @ [psql_call w (''DROP DATABASE IF EXISTS '' @ dbName @ '';'')];
                t2 = t1 @ drop_lines dbName (classify_drop (psql_result_of (exec_reply w t1)))
                        @ [Log Plain ''''] @ create_request w dbName;
                t3 = t2 @ create_lines dbName (classify_create (psql_result_of (exec_reply w t2)))
                        @ [Log Plain '''']
                        @ migrate_request w dbName (default_migrationsPath migrationsPath)
            in (Inr (), t3 @ concat (map migrate_lines (fst (spawn_reply w t3) # snd (spawn_reply w t3)))))"
    unfolding resetDatabase_def reset_started_def seq_console_log
    by (simp add: seq_def bind_def dropDatabase_run createDatabase_run console_log_def
          runDbmateUp_run [OF assms] Let_def)
  have dropped: "drop_lines dbName (classify_drop r) \<noteq> []"
    by (simp add: drop_lines_def classify_drop_def)
  have created: "create_lines dbName (classify_create r) \<noteq> []"
    by (simp add: create_lines_def classify_create_def)
  have migrated: "(migrate_lines ev = []) = (ev = CloseEvent None)"
    by (simp add: migrate_lines_def split: proc_event.splits option.splits)
  from run dropped created migrated show ?thesis
    by blast
qed

text \<open>All three steps succeeding, with the default migrations path.\<close>

theorem resetDatabase_three_steps_witness:
  \<open>''app'' \<noteq> []
   \<and> resetDatabase demo_os ''app'' None [] =
       (Inr (),
        [Log Blue (''<U+1F504> Resetting database "app"...'' @ newline),
         Log Blue (''<U+1F5D1><U+FE0F>  Dropping database "app"...'' @ newline),
         Exec (''psql -P pager=off -h localhost -p 5432 -U postgres  -c "'' @ terminateSql ''app'' @ ''"'')
           [(''PGHOST'', Some ''localhost''), (''PGPORT'', Some ''5432''),
            (''PGUSER'', Some ''postgres''), (''PGPASSWORD'', Some ''pw'')] False,
         Exec ''psql -P pager=off -h localhost -p 5432 -U postgres  -c "DROP DATABASE IF EXISTS app;"''
           [(''PGHOST'', Some ''localhost''), (''PGPORT'', Some ''5432''),
            (''PGUSER'', Some ''postgres''), (''PGPASSWORD'', Some ''pw'')] False,
         Log Green ''<U+2713> Database "app" dropped successfully!'',
         Log Plain '''',
         Log Blue (''<U+2795> Creating database "app"...'' @ newline),
         Exec ''psql -P pager=off -h localhost -p 5432 -U postgres  -c "CREATE DATABASE app;"''
           [(''PGHOST'', Some ''localhost''), (''PGPORT'', Some ''5432''),
            (''PGUSER'', Some ''postgres''), (''PGPASSWORD'', Some ''pw'')] False,
         Log Green ''<U+2713> Database "app" created successfully!'',
         Log Plain '''',
         Log Blue (''<U+2B06><U+FE0F>  Running dbmate up (applying migrations to "app")...'' @ newline),
         Spawn ''dbmate'' [''up'']
           [(''DATABASE_URL'', Some ''postgres://postgres:pw@localhost:5432/app?sslmode=disable''),
            (''DBMATE_MIGRATIONS_DIR'', Some ''./db/migrations'')] False,
         Log Green (newline @ ''<U+2713> Migrations applied successfully!'')])\<close>
proof -
  have name: "''app'' \<noteq> []"
    by simp
  have world: "process_env demo_os = demo_env" "platform_win32 demo_os = False"
    "exec_reply demo_os = (\<lambda>t. Inr ('''', ''''))"
    "spawn_reply demo_os = (\<lambda>t. (CloseEvent (Some 0), []))"
    by (simp_all add: demo_os_def)
  from resetDatabase_three_steps [OF name, of demo_os None "[]"]
  have "resetDatabase demo_os ''app'' None [] =
           (let t1 = [] @ [reset_started ''app''] @ terminate_request demo_os ''app''
                       @ [psql_call demo_os (''DROP DATABASE IF EXISTS '' @ ''app'' @ '';'')];
                t2 = t1 @ drop_lines ''app'' (classify_drop (psql_result_of (exec_reply demo_os t1)))
                        @ [Log Plain ''''] @ create_request demo_os ''app'';
                t3 = t2 @ create_lines ''app'' (classify_create (psql_result_of (exec_reply demo_os t2)))
                        @ [Log Plain '''']
                        @ migrate_request demo_os ''app'' (default_migrationsPath None)
            in (Inr (), t3 @ concat (map migrate_lines (fst (spawn_reply demo_os t3) # snd (spawn_reply demo_os t3)))))"
    by (rule conjunct1)
  then show ?thesis
    by (simp add: Let_def world concrete_defs)
qed

text \<open>
  A migration tool ended by a signal: the run ends with the start of the tool, and no
  outcome of the third step is reported.
\<close>

theorem resetDatabase_silent_after_signal:
  \<open>resetDatabase signalled_os ''app'' None [] =
       (Inr (),
        [Log Blue (''<U+1F504> Resetting database "app"...'' @ newline),
         Log Blue (''<U+1F5D1><U+FE0F>  Dropping database "app"...'' @ newline),
         Exec (''psql -P pager=off -h localhost -p 5432 -U postgres  -c "'' @ terminateSql ''app'' @ ''"'')
           [(''PGHOST'', Some ''localhost''), (''PGPORT'', Some ''5432''),
            (''PGUSER'', Some ''postgres''), (''PGPASSWORD'', Some ''pw'')] False,
         Exec ''psql -P pager=off -h localhost -p 5432 -U postgres  -c "DROP DATABASE IF EXISTS app;"''
           [(''PGHOST'', Some ''localhost''), (''PGPORT'', Some ''5432''),
            (''PGUSER'', Some ''postgres''), (''PGPASSWORD'', Some ''pw'')] False,
         Log Green ''<U+2713> Database "app" dropped successfully!'',
         Log Plain '''',
         Log Blue (''<U+2795> Creating database "app"...'' @ newline),
         Exec ''psql -P pager=off -h localhost -p 5432 -U postgres  -c "CREATE DATABASE app;"''
           [(''PGHOST'', Some ''localhost''), (''PGPORT'', Some ''5432''),
            (''PGUSER'', Some ''postgres''), (''PGPASSWORD'', Some ''pw'')] False,
         Log Green ''<U+2713> Database "app" created successfully!'',
         Log Plain '''',
         Log Blue (''<U+2B06><U+FE0F>  Running dbmate up (applying migrations to "app")...'' @ newline),
         Spawn ''dbmate'' [''up'']
           [(''DATABASE_URL'', Some ''postgres://postgres:pw@localhost:5432/app?sslmode=disable''),
            (''DBMATE_MIGRATIONS_DIR'', Some ''./db/migrations'')] False])\<close>
proof -
  have name: "''app'' \<noteq> []"
    by simp
  have world: "process_env signalled_os = demo_env" "platform_win32 signalled_os = False"
    "exec_reply signalled_os = (\<lambda>t. Inr ('''', ''''))"
    "spawn_reply signalled_os = (\<lambda>t. (CloseEvent None, []))"
    by (simp_all add: signalled_os_def demo_os_def)
  show ?thesis
    unfolding resetDatabase_def seq_console_log
    by (simp add: seq_def bind_def dropDatabase_run createDatabase_run console_log_def
          runDbmateUp_run [OF name] Let_def world concrete_defs)
qed

subsection \<open>Backup: the directory, then the dump\<close>

text \<open>
  Claim C4, as amended. For every database name and every backup path whose parent
  directory exists or can be created, \<^verbatim>\<open>backupDatabase\<close> first looks for the parent
  directory of the path and, when it is missing, creates it with the recursive option.
  It then invokes the dump tool: when the extension of the path, compared in lower case,
  is \<^verbatim>\<open>.dump\<close>, \<^verbatim>\<open>.backup\<close> or \<^verbatim>\<open>.dmp\<close>, with the compressed custom format and
  direct file output, \<^verbatim>\<open>-Fc -f "<path>" <dbName>\<close>; for any other extension in plain
  SQL mode with its output redirected to the path. The outcome of the dump is then
  printed.
\<close>

theorem backupDatabase_directory_then_dump:
  assumes "fs_existsSync w (t @ [backup_started dbName backupPath]) (path_dirname w backupPath)
           \<or> mkdir_reply w (t @ [backup_started dbName backupPath,
                                   Mkdir (path_dirname w backupPath) True]) = None"
  shows "backupDatabase w dbName backupPath t =
          (let t0 = t @ [backup_started dbName backupPath];
               dir = path_dirname w backupPath;
               fmt = format_of_extension (js_toLowerCase w (path_extname w backupPath));
               t1 = (if fs_existsSync w t0 dir then t0 else t0 @ [Mkdir dir True])
                    @ [Log Cyan (dump_announcement fmt),
                       Exec (dump_command w dbName backupPath fmt) (pg_env w) True]
           in (Inr (), t1 @ backup_lines dbName backupPath (exec_reply w t1)))
         \<and> dump_command w dbName backupPath CustomArchive =
             ''pg_dump -h '' @ PGHOST w @ '' -p '' @ PGPORT w @ '' -U '' @ PGUSER w
             @ '' -Fc -f '' @ quoted backupPath @ '' '' @ dbName
         \<and> dump_command w dbName backupPath PlainSql =
             ''pg_dump -h '' @ PGHOST w @ '' -p '' @ PGPORT w @ '' -U '' @ PGUSER w
             @ '' '' @ dbName @ '' > '' @ quoted backupPath
         \<and> format_of_extension ''.dump'' = CustomArchive
         \<and> format_of_extension ''.backup'' = CustomArchive
         \<and> format_of_extension ''.dmp'' = CustomArchive
         \<and> (ext \<noteq> ''.dump'' \<and> ext \<noteq> ''.backup'' \<and> ext \<noteq> ''.dmp'' \<longrightarrow>
              format_of_extension ext = PlainSql)"
  using assms
  by (auto simp: backupDatabase_run dump_command_def format_of_extension_def Let_def)

text \<open>
  The scenario of the specification: host \<^verbatim>\<open>localhost\<close>, port \<^verbatim>\<open>5432\<close>, user
  \<^verbatim>\<open>postgres\<close>, on a POSIX system where \<^verbatim>\<open>./backups\<close> is absent and can be created.
\<close>

theorem backupDatabase_directory_then_dump_witness:
  \<open>mkdir_reply demo_os [backup_started ''app'' ''./backups/app.dump'', Mkdir ''./backups'' True] = None
   \<and> posix_dirname ''./backups/app.dump'' = ''./backups''
   \<and> format_of_extension (latin1_toLowerCase (posix_extname ''./backups/app.dump'')) = CustomArchive
   \<and> ''.sql'' \<noteq> ''.dump'' \<and> ''.sql'' \<noteq> ''.backup'' \<and> ''.sql'' \<noteq> ''.dmp''
   \<and> format_of_extension ''.sql'' = PlainSql
   \<and> backupDatabase demo_os ''app'' ''./backups/app.dump'' [] =
       (Inr (),
        [Log Blue (''<U+1F4BE> Backing up database "app" to "./backups/app.dump"...'' @ newline),
         Mkdir ''./backups'' True,
         Log Cyan (''Creating custom format backup (compressed)...'' @ newline),
         Exec ''pg_dump -h localhost -p 5432 -U postgres -Fc -f "./backups/app.dump" app''
           [(''PGHOST'', Some ''localhost''), (''PGPORT'', Some ''5432''),
            (''PGUSER'', Some ''postgres''), (''PGPASSWORD'', Some ''pw'')] True,
         Log Green ''<U+2713> Database "app" backed up successfully to "./backups/app.dump"!''])\<close>
proof -
  have dir: "posix_dirname ''./backups/app.dump'' = ''./backups''"
    by code_simp
  have ext: "posix_extname ''./backups/app.dump'' = ''.dump''"
    by code_simp
  have lower: "latin1_toLowerCase ''.dump'' = ''.dump''"
    by code_simp
  have world: "process_env demo_os = demo_env" "path_dirname demo_os = posix_dirname"
    "path_extname demo_os = posix_extname" "js_toLowerCase demo_os = latin1_toLowerCase"
    "exec_reply demo_os = (\<lambda>t. Inr ('''', ''''))"
    "fs_existsSync demo_os = (\<lambda>t p. False)" "mkdir_reply demo_os = (\<lambda>t. None)"
    by (simp_all add: demo_os_def)
  have creatable:
    "fs_existsSync demo_os ([] @ [backup_started ''app'' ''./backups/app.dump''])
       (path_dirname demo_os ''./backups/app.dump'')
     \<or> mkdir_reply demo_os ([] @ [backup_started ''app'' ''./backups/app.dump'',
                                   Mkdir (path_dirname demo_os ''./backups/app.dump'') True]) = None"
    by (simp add: world)
  from backupDatabase_directory_then_dump [OF creatable, of "''.sql''"]
  show ?thesis
    by (simp add: Let_def world dir ext lower backup_started_def backup_lines_def
          dump_announcement_def pg_env_def PGHOST_def PGPORT_def PGUSER_def demo_env_def
          interp_def quoted_def check_mark_def)
qed

text \<open>
  The claim as first stated fails for an extension that is none of the three listed and
  still selects the custom format: \<^verbatim>\<open>.DUMP\<close> does, because the extension is compared
  in lower case.
\<close>

theorem backupDatabase_counterexample:
  \<open>posix_extname ''./backups/app.DUMP'' = ''.DUMP''
   \<and> ''.DUMP'' \<notin> {''.dump'', ''.backup'', ''.dmp''}
   \<and> backupDatabase demo_os ''app'' ''./backups/app.DUMP'' [] =
       (Inr (),
        [Log Blue (''<U+1F4BE> Backing up database "app" to "./backups/app.DUMP"...'' @ newline),
         Mkdir ''./backups'' True,
         Log Cyan (''Creating custom format backup (compressed)...'' @ newline),
         Exec ''pg_dump -h localhost -p 5432 -U postgres -Fc -f "./backups/app.DUMP" app''
           [(''PGHOST'', Some ''localhost''), (''PGPORT'', Some ''5432''),
            (''PGUSER'', Some ''postgres''), (''PGPASSWORD'', Some ''pw'')] True,
         Log Green ''<U+2713> Database "app" backed up successfully to "./backups/app.DUMP"!''])\<close>
proof -
  have dir: "posix_dirname ''./backups/app.DUMP'' = ''./backups''"
    by code_simp
  have ext: "posix_extname ''./backups/app.DUMP'' = ''.DUMP''"
    by code_simp
  have lower: "latin1_toLowerCase ''.DUMP'' = ''.dump''"
    by code_simp
  have world: "process_env demo_os = demo_env" "path_dirname demo_os = posix_dirname"
    "path_extname demo_os = posix_extname" "js_toLowerCase demo_os = latin1_toLowerCase"
    "exec_reply demo_os = (\<lambda>t. Inr ('''', ''''))"
    "fs_existsSync demo_os = (\<lambda>t p. False)" "mkdir_reply demo_os = (\<lambda>t. None)"
    by (simp_all add: demo_os_def)
  have upper: "backupDatabase demo_os ''app'' ''./backups/app.DUMP'' [] =
       (Inr (),
        [backup_started ''app'' ''./backups/app.DUMP'',
         Mkdir ''./backups'' True,
         Log Cyan (dump_announcement CustomArchive),
         Exec (dump_command demo_os ''app'' ''./backups/app.DUMP'' CustomArchive) (pg_env demo_os) True]
        @ backup_lines ''app'' ''./backups/app.DUMP'' (Inr ('''', '''')))"
    by (simp add: backupDatabase_run Let_def world dir ext lower format_of_extension_def)
  show ?thesis
    unfolding upper ext
    by (simp add: world backup_started_def backup_lines_def dump_announcement_def
          dump_command_def pg_env_def PGHOST_def PGPORT_def PGUSER_def demo_env_def
          interp_def quoted_def check_mark_def)
qed

subsection \<open>The connection string\<close>

text \<open>
  Claim C7. A value is absent when it is \<^verbatim>\<open>undefined\<close> or the empty string, which is
  what the test \<^verbatim>\<open>!dbName\<close> of the code means (last conjunct). If the database name is
  absent and \<^verbatim>\<open>DATABASE_URL\<close> is configured, \<^verbatim>\<open>getDatabaseUrl\<close> returns that
  connection string unchanged; if both are absent it throws the error "Database name is
  required"; if the database name is present the result is
  \<^verbatim>\<open>postgres://<user>:<password>@<host>:<port>/<dbName>?sslmode=disable\<close>, built from the
  configured parameters, whatever \<^verbatim>\<open>DATABASE_URL\<close> is.
\<close>

theorem getDatabaseUrl_cases:
  "(\<not> truthy dbName \<longrightarrow> process_env w ''DATABASE_URL'' = Some url \<longrightarrow> url \<noteq> [] \<longrightarrow>
      getDatabaseUrl w dbName = Inr url)
   \<and> (\<not> truthy dbName \<longrightarrow> \<not> truthy (process_env w ''DATABASE_URL'') \<longrightarrow>
        getDatabaseUrl w dbName = Inl (Error ''Database name is required''))
   \<and> (name \<noteq> [] \<longrightarrow>
        getDatabaseUrl w (Some name) =
          Inr (''postgres://'' @ interp (process_env w ''PG_USER'') @ '':''
               @ interp (process_env w ''PG_PASSWORD'') @ ''@''
               @ interp (process_env w ''PG_HOST'') @ '':''
               @ interp (process_env w ''PG_PORT'') @ ''/'' @ name @ ''?sslmode=disable''))
   \<and> truthy v = (\<exists>s. v = Some s \<and> s \<noteq> [])"
  by (auto simp: getDatabaseUrl_def truthy_def interp_def split: option.splits)

theorem getDatabaseUrl_cases_witness:
  "\<not> truthy None
   \<and> process_env override_os ''DATABASE_URL'' = Some ''postgres://ci:secret@db:6432/ci?sslmode=disable''
   \<and> getDatabaseUrl override_os None = Inr ''postgres://ci:secret@db:6432/ci?sslmode=disable''
   \<and> \<not> truthy (process_env demo_os ''DATABASE_URL'')
   \<and> getDatabaseUrl demo_os None = Inl (Error ''Database name is required'')
   \<and> getDatabaseUrl override_os (Some ''app'') =
       Inr ''postgres://postgres:pw@localhost:5432/app?sslmode=disable''"
proof -
  have absent: "\<not> truthy None"
    by (simp add: truthy_def)
  have override: "process_env override_os ''DATABASE_URL'' =
                    Some ''postgres://ci:secret@db:6432/ci?sslmode=disable''"
    by (simp add: override_os_def)
  have url: "''postgres://ci:secret@db:6432/ci?sslmode=disable'' \<noteq> []"
    by simp
  have none: "\<not> truthy (process_env demo_os ''DATABASE_URL'')"
    by (simp add: demo_os_def demo_env_def truthy_def)
  have name: "''app'' \<noteq> []"
    by simp
  have params: "interp (process_env override_os ''PG_USER'') = ''postgres''"
    "interp (process_env override_os ''PG_PASSWORD'') = ''pw''"
    "interp (process_env override_os ''PG_HOST'') = ''localhost''"
    "interp (process_env override_os ''PG_PORT'') = ''5432''"
    by (simp_all add: override_os_def demo_env_def interp_def)
  from getDatabaseUrl_cases [where dbName = None and w = override_os
      and url = "''postgres://ci:secret@db:6432/ci?sslmode=disable''"] absent override url
  have first: "getDatabaseUrl override_os None = Inr ''postgres://ci:secret@db:6432/ci?sslmode=disable''"
    by blast
  from getDatabaseUrl_cases [where dbName = None and w = demo_os] absent none
  have second: "getDatabaseUrl demo_os None = Inl (Error ''Database name is required'')"
    by blast
  from getDatabaseUrl_cases [where w = override_os and name = "''app''"] name
  have third: "getDatabaseUrl override_os (Some ''app'') =
          Inr (''postgres://'' @ interp (process_env override_os ''PG_USER'') @ '':''
               @ interp (process_env override_os ''PG_PASSWORD'') @ ''@''
               @ interp (process_env override_os ''PG_HOST'') @ '':''
               @ interp (process_env override_os ''PG_PORT'') @ ''/'' @ ''app'' @ ''?sslmode=disable'')"
    by blast
  from absent override first none second third show ?thesis
    by (simp add: params)
qed

subsection \<open>Which names reach the statements\<close>

text \<open>
  The create case of the menu and the target of the clone case accept only names made of
  letters, digits and underscores, and \<^verbatim>\<open>trim\<close> leaves such a name as it is.
\<close>

lemma word_char_not_space: "word_char c \<Longrightarrow> \<not> is_space c"
  by (auto simp: word_char_def is_space_def Let_def)

lemma dropWhile_space_words: "list_all word_char s \<Longrightarrow> dropWhile is_space s = s"
  by (cases s) (simp_all add: word_char_not_space)

lemma trim_safe_name: "safe_name s \<Longrightarrow> trim s = s"
  by (simp add: safe_name_def trim_def dropWhile_space_words list_all_iff)

lemma menu_create_safe:
  assumes "menu_create w dbName = Some run"
  shows "safe_name (trim dbName) \<and> run = createDatabase w (trim dbName)"
  using assms
  by (auto simp: menu_create_def validate_create_def trim_safe_name split: if_splits)

lemma menu_clone_target_safe:
  assumes "menu_clone w sourceDb targetDb = Some run"
  shows "safe_name (trim targetDb) \<and> run = cloneDatabase w (trim sourceDb) (trim targetDb)"
  using assms
  by (auto simp: menu_clone_def validate_clone_target_def trim_safe_name split: if_splits)

text \<open>
  Claim C8 does not hold on the drop path. The prompt of the drop case only refuses an
  empty answer, so a name outside the safe character set reaches \<^verbatim>\<open>dropDatabase\<close>
  and is spliced into both of its statements: with the answer
  \<^verbatim>\<open>a; DROP DATABASE b\<close> and the confirmation given, the second command handed to the
  shell carries two statements.
\<close>

theorem menu_drop_accepts_unsafe_name:
  \<open>validate_drop ''a; DROP DATABASE b'' = Accepted
   \<and> \<not> safe_name (trim ''a; DROP DATABASE b'')
   \<and> map_option (\<lambda>run. snd (run [])) (menu_drop demo_os ''a; DROP DATABASE b'' True) =
       Some [Log Blue (''<U+1F5D1><U+FE0F>  Dropping database "a; DROP DATABASE b"...'' @ newline),
             Exec (''psql -P pager=off -h localhost -p 5432 -U postgres  -c "''
                   @ terminateSql ''a; DROP DATABASE b'' @ ''"'')
               [(''PGHOST'', Some ''localhost''), (''PGPORT'', Some ''5432''),
                (''PGUSER'', Some ''postgres''), (''PGPASSWORD'', Some ''pw'')] False,
             Exec ''psql -P pager=off -h localhost -p 5432 -U postgres  -c "DROP DATABASE IF EXISTS a; DROP DATABASE b;"''
               [(''PGHOST'', Some ''localhost''), (''PGPORT'', Some ''5432''),
                (''PGUSER'', Some ''postgres''), (''PGPASSWORD'', Some ''pw'')] False,
             Log Green ''<U+2713> Database "a; DROP DATABASE b" dropped successfully!'']\<close>
proof -
  have trimmed: "trim ''a; DROP DATABASE b'' = ''a; DROP DATABASE b''"
    by code_simp
  have unsafe: "\<not> safe_name ''a; DROP DATABASE b''"
    by code_simp
  have world: "process_env demo_os = demo_env" "exec_reply demo_os = (\<lambda>t. Inr ('''', ''''))"
    by (simp_all add: demo_os_def)
  show ?thesis
    using unsafe
    by (simp add: menu_drop_def validate_drop_def trimmed dropDatabase_run world concrete_defs)
qed

subsection \<open>Backup and restore agree on the format\<close>

text \<open>
  Claim C10. For every path, \<^verbatim>\<open>backupDatabase\<close> and \<^verbatim>\<open>restoreDatabase\<close> select by the
  same format, the format of the lower-cased extension of the path. Once the backup file
  exists, \<^verbatim>\<open>restoreDatabase\<close> announces and runs the restore command of that format
  (\<^verbatim>\<open>pg_restore\<close> for the custom archive, \<^verbatim>\<open>psql\<close> reading the file for plain SQL);
  once the parent directory exists or has been created, \<^verbatim>\<open>backupDatabase\<close> announces
  and runs the dump command of the same format. The two blocks that choose the command
  return it together with \<^verbatim>\<open>usePgRestore\<close>, which is true exactly for the custom
  archive. The format is the custom archive exactly for \<^verbatim>\<open>.dump\<close>, \<^verbatim>\<open>.backup\<close> and
  \<^verbatim>\<open>.dmp\<close> and plain SQL for everything else, \<^verbatim>\<open>.sql\<close> and the empty extension
  included. The comparison ignores case: a path whose extension is \<^verbatim>\<open>.DUMP\<close>, which
  \<^verbatim>\<open>toLowerCase\<close> turns into \<^verbatim>\<open>.dump\<close>, is a custom archive for both.
\<close>

theorem backup_restore_same_format:
  "(fs_existsSync w (t @ [restore_started dbName backupPath]) backupPath \<longrightarrow>
      restoreDatabase w dbName backupPath t =
        (let fmt = format_of_extension (js_toLowerCase w (path_extname w backupPath));
             t1 = t @ [restore_started dbName backupPath,
                       Log Cyan (restore_announcement fmt),
                       Exec (restore_command w dbName backupPath fmt) (pg_env w) True]
         in (Inr (), t1 @ restore_lines dbName backupPath fmt (exec_reply w t1))))
   \<and> (fs_existsSync w (t @ [backup_started dbName backupPath]) (path_dirname w backupPath)
       \<or> mkdir_reply w (t @ [backup_started dbName backupPath,
                               Mkdir (path_dirname w backupPath) True]) = None \<longrightarrow>
      backupDatabase w dbName backupPath t =
        (let fmt = format_of_extension (js_toLowerCase w (path_extname w backupPath));
             t0 = t @ [backup_started dbName backupPath];
             t1 = (if fs_existsSync w t0 (path_dirname w backupPath) then t0
                   else t0 @ [Mkdir (path_dirname w backupPath) True])
                  @ [Log Cyan (dump_announcement fmt),
                     Exec (dump_command w dbName backupPath fmt) (pg_env w) True]
         in (Inr (), t1 @ backup_lines dbName backupPath (exec_reply w t1))))
   \<and> backup_select w dbName backupPath t =
     (Inr (dump_command w dbName backupPath
             (format_of_extension (js_toLowerCase w (path_extname w backupPath)))),
      t @ [Log Cyan (dump_announcement
                      (format_of_extension (js_toLowerCase w (path_extname w backupPath))))])
   \<and> restore_select w dbName backupPath t =
     (Inr (format_of_extension (js_toLowerCase w (path_extname w backupPath)) = CustomArchive,
           restore_command w dbName backupPath
             (format_of_extension (js_toLowerCase w (path_extname w backupPath)))),
      t @ [Log Cyan (restore_announcement
                      (format_of_extension (js_toLowerCase w (path_extname w backupPath))))])
   \<and> (format_of_extension ext = CustomArchive) = (ext \<in> {''.dump'', ''.backup'', ''.dmp''})
   \<and> (format_of_extension ext = PlainSql) = (ext \<notin> {''.dump'', ''.backup'', ''.dmp''})
   \<and> (path_extname w backupPath = ''.DUMP'' \<longrightarrow> js_toLowerCase w ''.DUMP'' = ''.dump'' \<longrightarrow>
        format_of_extension (js_toLowerCase w (path_extname w backupPath)) = CustomArchive)
   \<and> format_of_extension ''.sql'' = PlainSql
   \<and> format_of_extension '''' = PlainSql"
proof -
  have restore: "restoreDatabase w dbName backupPath t =
        (let fmt = format_of_extension (js_toLowerCase w (path_extname w backupPath));
             t1 = t @ [restore_started dbName backupPath,
                       Log Cyan (restore_announcement fmt),
                       Exec (restore_command w dbName backupPath fmt) (pg_env w) True]
         in (Inr (), t1 @ restore_lines dbName backupPath fmt (exec_reply w t1)))"
    if "fs_existsSync w (t @ [restore_started dbName backupPath]) backupPath"
    using that by (simp add: restoreDatabase_run Let_def)
  have backup: "backupDatabase w dbName backupPath t =
        (let fmt = format_of_extension (js_toLowerCase w (path_extname w backupPath));
             t0 = t @ [backup_started dbName backupPath];
             t1 = (if fs_existsSync w t0 (path_dirname w backupPath) then t0
                   else t0 @ [Mkdir (path_dirname w backupPath) True])
                  @ [Log Cyan (dump_announcement fmt),
                     Exec (dump_command w dbName backupPath fmt) (pg_env w) True]
         in (Inr (), t1 @ backup_lines dbName backupPath (exec_reply w t1)))"
    if "fs_existsSync w (t @ [backup_started dbName backupPath]) (path_dirname w backupPath)
        \<or> mkdir_reply w (t @ [backup_started dbName backupPath,
                                Mkdir (path_dirname w backupPath) True]) = None"
    using that by (auto simp: backupDatabase_run Let_def)
  have sets: "(format_of_extension ext = CustomArchive) = (ext \<in> {''.dump'', ''.backup'', ''.dmp''})"
    "(format_of_extension ext = PlainSql) = (ext \<notin> {''.dump'', ''.backup'', ''.dmp''})"
    "format_of_extension ''.dump'' = CustomArchive"
    "format_of_extension ''.sql'' = PlainSql" "format_of_extension '''' = PlainSql"
    by (simp_all add: format_of_extension_def)
  have upper: "format_of_extension (js_toLowerCase w (path_extname w backupPath)) = CustomArchive"
    if "path_extname w backupPath = ''.DUMP''" "js_toLowerCase w ''.DUMP'' = ''.dump''"
    using that sets(3) by simp
  from restore backup sets upper show ?thesis
    by (intro conjI impI) (simp_all add: backup_select_run restore_select_run)
qed

text \<open>On a POSIX system where the file and its directory exist and the tools succeed.\<close>

theorem backup_restore_same_format_witness:
  \<open>fs_existsSync stocked_os [restore_started ''app'' ''backups/app.DUMP''] ''backups/app.DUMP''
   \<and> path_extname stocked_os ''backups/app.DUMP'' = ''.DUMP''
   \<and> js_toLowerCase stocked_os ''.DUMP'' = ''.dump''
   \<and> restoreDatabase stocked_os ''app'' ''backups/app.DUMP'' [] =
       (Inr (),
        [Log Blue (''<U+267B><U+FE0F>  Restoring database "app" from "backups/app.DUMP"...'' @ newline),
         Log Cyan (''Detected custom format backup, using pg_restore...'' @ newline),
         Exec ''pg_restore -h localhost -p 5432 -U postgres -d app --clean --if-exists --no-owner --no-acl "backups/app.DUMP"''
           [(''PGHOST'', Some ''localhost''), (''PGPORT'', Some ''5432''),
            (''PGUSER'', Some ''postgres''), (''PGPASSWORD'', Some ''pw'')] True,
         Log Green ''<U+2713> Database "app" restored successfully from "backups/app.DUMP"!''])
   \<and> backupDatabase stocked_os ''app'' ''backups/app.DUMP'' [] =
       (Inr (),
        [Log Blue (''<U+1F4BE> Backing up database "app" to "backups/app.DUMP"...'' @ newline),
         Log Cyan (''Creating custom format backup (compressed)...'' @ newline),
         Exec ''pg_dump -h localhost -p 5432 -U postgres -Fc -f "backups/app.DUMP" app''
           [(''PGHOST'', Some ''localhost''), (''PGPORT'', Some ''5432''),
            (''PGUSER'', Some ''postgres''), (''PGPASSWORD'', Some ''pw'')] True,
         Log Green ''<U+2713> Database "app" backed up successfully to "backups/app.DUMP"!''])\<close>
proof -
  have world: "process_env stocked_os = demo_env" "path_dirname stocked_os = posix_dirname"
    "path_extname stocked_os = posix_extname" "js_toLowerCase stocked_os = latin1_toLowerCase"
    "exec_reply stocked_os = (\<lambda>t. Inr ('''', ''''))"
    "fs_existsSync stocked_os = (\<lambda>t p. True)"
    by (simp_all add: stocked_os_def demo_os_def)
  have ext: "posix_extname ''backups/app.DUMP'' = ''.DUMP''"
    by code_simp
  have lower: "latin1_toLowerCase ''.DUMP'' = ''.dump''"
    by code_simp
  have fmt: "format_of_extension ''.dump'' = CustomArchive"
    by (simp add: format_of_extension_def)
  note claim = backup_restore_same_format [of stocked_os "[]" "''app''" "''backups/app.DUMP''"]
  have restored: "restoreDatabase stocked_os ''app'' ''backups/app.DUMP'' [] =
       (Inr (), [restore_started ''app'' ''backups/app.DUMP'',
                 Log Cyan (restore_announcement CustomArchive),
                 Exec (restore_command stocked_os ''app'' ''backups/app.DUMP'' CustomArchive)
                   (pg_env stocked_os) True]
                @ restore_lines ''app'' ''backups/app.DUMP'' CustomArchive (Inr ('''', '''')))"
    using claim by (simp add: Let_def world ext lower fmt)
  have dumped: "backupDatabase stocked_os ''app'' ''backups/app.DUMP'' [] =
       (Inr (), [backup_started ''app'' ''backups/app.DUMP'',
                 Log Cyan (dump_announcement CustomArchive),
                 Exec (dump_command stocked_os ''app'' ''backups/app.DUMP'' CustomArchive)
                   (pg_env stocked_os) True]
                @ backup_lines ''app'' ''backups/app.DUMP'' (Inr ('''', '''')))"
    using claim by (simp add: Let_def world ext lower fmt)
  show ?thesis
    unfolding restored dumped
    by (simp add: world ext lower restore_started_def backup_started_def restore_lines_def
          backup_lines_def restore_announcement_def dump_announcement_def restore_command_def
          dump_command_def pg_env_def PGHOST_def PGPORT_def PGUSER_def demo_env_def
          interp_def quoted_def check_mark_def)
qed

end
